theory Spec2Isabelle
  imports Complex_Main
begin

section \<open>Python values shared by the services\<close>

text \<open>
  The dashboard is Python.  A float is modelled as the \<^typ>\<open>real\<close> number it denotes (NaN
  and infinity are not values of the model; where pandas produces NaN the model has
  \<open>None\<close>), an unbounded integer as an \<^typ>\<open>int\<close>, and an exception as a value of
  \<open>pyexn\<close>.  The float64 arithmetic of numpy, where a test of the code depends on its
  rounding, and the results of library code that is not part of the repository
  (\<open>json.loads\<close>, \<open>float\<close> on a string, \<open>datetime.fromtimestamp\<close>, \<open>pd.to_datetime\<close>,
  statsmodels) enter the model as parameters.
\<close>

datatype pyexn =
    KeyError
  | ValueError
  | TypeError
  | AttributeError
  | IndexError
  | OverflowError
  | OSError
  | JSONDecodeError
  | DatabaseError
  | LibraryError
  | MalformedTickError  \<comment> \<open>named by the specification; no statement of the source raises it\<close>

text \<open>A point in time, in microseconds (the resolution of \<open>datetime\<close>).\<close>

type_synonym instant = int

text \<open>The tick dictionary built by \<open>normalize_tick\<close>: keys symbol, timestamp, price, size.\<close>

record tick =
  t_symbol :: string
  t_timestamp :: instant
  t_price :: real
  t_size :: real

section \<open>Ingestion buffer (\<open>BinanceDataIngestion.on_message\<close>, the locked block)\<close>

text \<open>
  \<^verbatim>\<open>self.buffer.append(tick)
  if len(self.buffer) > 1000:
      self.buffer.pop(0)\<close>
\<close>

definition buffer_append :: "tick list \<Rightarrow> tick \<Rightarrow> tick list" where
  "buffer_append buffer tk =
     (let buffer1 = buffer @ [tk]
      in if length buffer1 > 1000 then tl buffer1 else buffer1)"

text \<open>A run of appends, starting from the buffer given.\<close>

fun buffer_appends :: "tick list \<Rightarrow> tick list \<Rightarrow> tick list" where
  "buffer_appends buffer [] = buffer"
| "buffer_appends buffer (tk # tks) = buffer_appends (buffer_append buffer tk) tks"

text \<open>\<open>get_recent_buffer(clear)\<close>: the copy returned and the buffer left behind.\<close>

definition get_recent_buffer :: "tick list \<Rightarrow> bool \<Rightarrow> tick list \<times> tick list" where
  "get_recent_buffer buffer clear = (buffer, if clear then [] else buffer)"

section \<open>Alert service (\<open>services/alert_service.py\<close>)\<close>

text \<open>
  An alert is a dictionary.  The keys \<open>triggered_at\<close> and \<open>triggered_price\<close> are absent
  until the alert fires.  \<open>datetime.now().isoformat()\<close> is the clock value passed in.
\<close>

record alert =
  a_id :: nat
  a_name :: string
  a_condition :: string
  a_symbol :: string
  a_threshold :: real
  is_active :: bool
  triggered :: bool
  created_at :: string
  triggered_at :: "string option"
  triggered_price :: "real option"

text \<open>
  The service object.  A registered callback is an opaque subscriber; calling it is
  recorded in \<open>notified\<close> as the pair of the subscriber and the alert copy it received.
\<close>

record 'cb alert_service =
  alerts :: "alert list"
  triggered_alerts :: "alert list"
  is_monitoring :: bool
  alert_callbacks :: "'cb list"
  notified :: "('cb \<times> alert) list"

definition init_alert_service :: "'cb alert_service" where
  "init_alert_service =
     \<lparr>alerts = [], triggered_alerts = [], is_monitoring = False,
      alert_callbacks = [], notified = []\<rparr>"

definition add_alert_callback :: "'cb alert_service \<Rightarrow> 'cb \<Rightarrow> 'cb alert_service" where
  "add_alert_callback svc callback = svc\<lparr>alert_callbacks := alert_callbacks svc @ [callback]\<rparr>"

definition create_alert ::
  "'cb alert_service \<Rightarrow> string \<Rightarrow> string \<Rightarrow> string \<Rightarrow> string \<Rightarrow> real
     \<Rightarrow> 'cb alert_service \<times> alert" where
  "create_alert svc now name condition symb threshold =
     (let alert = \<lparr>a_id = length (alerts svc) + 1, a_name = name, a_condition = condition,
                   a_symbol = symb, a_threshold = threshold, is_active = True,
                   triggered = False, created_at = now,
                   triggered_at = None, triggered_price = None\<rparr>
      in (svc\<lparr>alerts := alerts svc @ [alert]\<rparr>, alert))"

definition remove_alert :: "'cb alert_service \<Rightarrow> nat \<Rightarrow> 'cb alert_service" where
  "remove_alert svc alert_id = svc\<lparr>alerts := filter (\<lambda>alert. a_id alert \<noteq> alert_id) (alerts svc)\<rparr>"

text \<open>The three assignments made when an alert fires.\<close>

definition mark_triggered :: "string \<Rightarrow> real \<Rightarrow> alert \<Rightarrow> alert" where
  "mark_triggered now price alert =
     alert\<lparr>triggered := True, triggered_at := Some now, triggered_price := Some price\<rparr>"

text \<open>
  The first loop of \<open>check_price_alert\<close>.  \<open>seen\<close> holds the alerts already visited (as
  they are after the visit), \<open>trig\<close> the local list \<open>triggered\<close> of copies.  The clock is
  read once for the whole check: \<open>now\<close> stands for every \<open>datetime.now()\<close> of the loop.
\<close>

fun check_loop ::
  "string \<Rightarrow> tick \<Rightarrow> alert list \<Rightarrow> alert list \<Rightarrow> alert list \<Rightarrow> alert list \<times> alert list" where
  "check_loop now tick_data [] seen trig = (seen, trig)"
| "check_loop now tick_data (alert # rest) seen trig =
     (if \<not> is_active alert \<or> triggered alert then
        check_loop now tick_data rest (seen @ [alert]) trig
      else if a_symbol alert = t_symbol tick_data then
        (let price = t_price tick_data; threshold = a_threshold alert
         in if a_condition alert = ''above'' \<and> price > threshold then
              (let alert1 = mark_triggered now price alert
               in check_loop now tick_data rest (seen @ [alert1]) (trig @ [alert1]))
            else if a_condition alert = ''below'' \<and> price < threshold then
              (let alert1 = mark_triggered now price alert
               in check_loop now tick_data rest (seen @ [alert1]) (trig @ [alert1]))
            else check_loop now tick_data rest (seen @ [alert]) trig)
      else check_loop now tick_data rest (seen @ [alert]) trig)"

text \<open>The second loop: every triggered copy goes to every callback, in order.\<close>

definition notify_all :: "'cb list \<Rightarrow> alert list \<Rightarrow> ('cb \<times> alert) list" where
  "notify_all callbacks trig = concat (map (\<lambda>alert. map (\<lambda>callback. (callback, alert)) callbacks) trig)"

definition check_price_alert ::
  "'cb alert_service \<Rightarrow> string \<Rightarrow> tick \<Rightarrow> 'cb alert_service \<times> alert list" where
  "check_price_alert svc now tick_data =
     (let (alerts1, trig) = check_loop now tick_data (alerts svc) [] []
      in (svc\<lparr>alerts := alerts1,
               notified := notified svc @ notify_all (alert_callbacks svc) trig\<rparr>,
          trig))"

text \<open>
  A sequence of checks, one per incoming tick (each with the clock value of its check);
  the result is the final service and the list returned by each check.
\<close>

fun check_ticks ::
  "'cb alert_service \<Rightarrow> (string \<times> tick) list \<Rightarrow> 'cb alert_service \<times> alert list list" where
  "check_ticks svc [] = (svc, [])"
| "check_ticks svc ((now, tick_data) # later) =
     (let (svc1, trig) = check_price_alert svc now tick_data;
          (svc2, trigs) = check_ticks svc1 later
      in (svc2, trig # trigs))"

subsection \<open>Auxiliary notions for the alert loop\<close>

text \<open>
  The guard under which the loop body marks an alert: the \<open>continue\<close> test fails, the
  symbols agree and one of the two threshold branches is taken.
\<close>

definition fires :: "tick \<Rightarrow> alert \<Rightarrow> bool" where
  "fires tick_data alert \<longleftrightarrow>
     is_active alert \<and> \<not> triggered alert \<and> a_symbol alert = t_symbol tick_data \<and>
     (a_condition alert = ''above'' \<and> t_price tick_data > a_threshold alert \<or>
      a_condition alert = ''below'' \<and> t_price tick_data < a_threshold alert)"

text \<open>What one iteration leaves in place of the alert it visits.\<close>

definition visit :: "string \<Rightarrow> tick \<Rightarrow> alert \<Rightarrow> alert" where
  "visit now tick_data alert =
     (if fires tick_data alert then mark_triggered now (t_price tick_data) alert else alert)"

text \<open>The lists returned by, and the alerts left after, a sequence of checks.\<close>

fun rounds :: "alert list \<Rightarrow> (string \<times> tick) list \<Rightarrow> alert list list" where
  "rounds as [] = []"
| "rounds as ((now, tk) # later) =
     map (mark_triggered now (t_price tk)) (filter (fires tk) as)
       # rounds (map (visit now tk) as) later"

fun finals :: "alert list \<Rightarrow> (string \<times> tick) list \<Rightarrow> alert list" where
  "finals as [] = as"
| "finals as ((now, tk) # later) = finals (map (visit now tk) as) later"

text \<open>The scenario of the specification: one subscriber, one alert above 100 on symbol x.\<close>

definition demo_alerts :: "nat alert_service" where
  "demo_alerts =
     fst (create_alert (add_alert_callback init_alert_service 7)
            ''t0'' ''breakout'' ''above'' ''x'' 100)"

definition tick_x :: "real \<Rightarrow> tick" where
  "tick_x p = \<lparr>t_symbol = ''x'', t_timestamp = 0, t_price = p, t_size = 1\<rparr>"

section \<open>Tick normalisation and the feed handler (\<open>services/data_ingestion.py\<close>, \<open>app.py\<close>)\<close>

text \<open>A decoded JSON document; an object is the list of its members (keys distinct).\<close>

datatype json =
    JNull
  | JBool bool
  | JInt int
  | JFloat real
  | JStr string
  | JArr "json list"
  | JObj "(string \<times> json) list"

text \<open>
  What \<open>datetime.fromtimestamp\<close> does with a number of POSIX seconds: it returns the local
  time, or raises ValueError (the year is out of range), OverflowError or OSError (the
  platform's time functions reject the value).
\<close>

datatype stamp =
    Stamp instant
  | StampValueError
  | StampOverflowError
  | StampOSError

text \<open>
  Python's library, as far as the handler and the resampler call it.  \<open>json_loads\<close> is
  \<open>None\<close> where \<open>json.loads\<close> raises; \<open>float_of_str\<close> is \<open>float\<close> on a string, \<open>None\<close>
  exactly where it raises ValueError (a string that \<open>float\<close> reads as nan or inf has no
  value in the model and is not covered); \<open>int_of_str\<close> likewise for \<open>int\<close>; \<open>to_offset\<close> is
  pandas' reading of a resampling rule of fixed width (seconds, minutes, hours), the bin
  width in microseconds, \<open>None\<close> where it raises; rules that follow the calendar (weeks,
  months) are not covered.  A stored timestamp is the string that \<open>isoformat\<close> writes; the model names it
  by the instant it was written from.  \<open>to_datetime\<close> is \<open>pd.to_datetime\<close> on the
  timestamp column: the instants it reads, or \<open>None\<close> where it raises (as it does on a
  column that mixes strings with and without a fractional second).
\<close>

record pylib =
  json_loads :: "string \<Rightarrow> json option"
  float_of_str :: "string \<Rightarrow> real option"
  int_of_str :: "string \<Rightarrow> int option"
  fromtimestamp :: "real \<Rightarrow> stamp"
  to_offset :: "string \<Rightarrow> int option"
  to_datetime :: "instant list \<Rightarrow> instant list option"

text \<open>\<open>data[key]\<close>: KeyError on a dictionary without the key, TypeError on a non-dictionary.\<close>

definition subscript :: "json \<Rightarrow> string \<Rightarrow> pyexn + json" where
  "subscript data key =
     (case data of
        JObj members \<Rightarrow> (case map_of members key of None \<Rightarrow> Inl KeyError | Some v \<Rightarrow> Inr v)
      | _ \<Rightarrow> Inl TypeError)"

text \<open>\<open>str.lower\<close> on ASCII letters.\<close>

definition lower_char :: "char \<Rightarrow> char" where
  "lower_char c =
     (case map_of (zip ''ABCDEFGHIJKLMNOPQRSTUVWXYZ'' ''abcdefghijklmnopqrstuvwxyz'') c of
        Some l \<Rightarrow> l
      | None \<Rightarrow> c)"

definition py_lower :: "json \<Rightarrow> pyexn + string" where
  "py_lower v = (case v of JStr s \<Rightarrow> Inr (map lower_char s) | _ \<Rightarrow> Inl AttributeError)"

text \<open>
  \<open>float(v)\<close>.  A bool is an int in Python; an int beyond the float range raises
  OverflowError.
\<close>

definition py_float :: "pylib \<Rightarrow> json \<Rightarrow> pyexn + real" where
  "py_float lib v =
     (case v of
        JStr s \<Rightarrow> (case float_of_str lib s of None \<Rightarrow> Inl ValueError | Some r \<Rightarrow> Inr r)
      | JInt i \<Rightarrow> if \<bar>i\<bar> < 2 ^ 1024 - 2 ^ 970 then Inr (of_int i) else Inl OverflowError
      | JFloat r \<Rightarrow> Inr r
      | JBool b \<Rightarrow> Inr (if b then 1 else 0)
      | _ \<Rightarrow> Inl TypeError)"

text \<open>\<open>v / 1000\<close>: true division of a number; TypeError on anything else.\<close>

definition py_div_1000 :: "json \<Rightarrow> pyexn + real" where
  "py_div_1000 v =
     (case v of
        JInt i \<Rightarrow> if \<bar>i\<bar> < 1000 * (2 ^ 1024 - 2 ^ 970) then Inr (of_int i / 1000)
                  else Inl OverflowError
      | JFloat r \<Rightarrow> Inr (r / 1000)
      | JBool b \<Rightarrow> Inr ((if b then 1 else 0) / 1000)
      | _ \<Rightarrow> Inl TypeError)"

text \<open>
  \<open>normalize_tick\<close>: the four values of the dictionary display are evaluated in order, and
  the first exception ends the call.
\<close>

definition normalize_tick :: "pylib \<Rightarrow> json \<Rightarrow> pyexn + tick" where
  "normalize_tick lib data =
     (case subscript data ''s'' of Inl e \<Rightarrow> Inl e | Inr s \<Rightarrow>
      case py_lower s of Inl e \<Rightarrow> Inl e | Inr symb \<Rightarrow>
      case subscript data ''E'' of Inl e \<Rightarrow> Inl e | Inr ev \<Rightarrow>
      case py_div_1000 ev of Inl e \<Rightarrow> Inl e | Inr secs \<Rightarrow>
      case fromtimestamp lib secs of
        StampValueError \<Rightarrow> Inl ValueError
      | StampOverflowError \<Rightarrow> Inl OverflowError
      | StampOSError \<Rightarrow> Inl OSError
      | Stamp ts \<Rightarrow>
      case subscript data ''p'' of Inl e \<Rightarrow> Inl e | Inr p \<Rightarrow>
      case py_float lib p of Inl e \<Rightarrow> Inl e | Inr price \<Rightarrow>
      case subscript data ''q'' of Inl e \<Rightarrow> Inl e | Inr q \<Rightarrow>
      case py_float lib q of Inl e \<Rightarrow> Inl e | Inr sz \<Rightarrow>
      Inr \<lparr>t_symbol = symb, t_timestamp = ts, t_price = price, t_size = sz\<rparr>)"

text \<open>
  The ingestion object.  The store and the subscribers are outside the repository's
  core: \<open>save_tick\<close> and \<open>call\<close> say what a store write and a callback do to their own
  state and whether they raise.  \<open>printed\<close> collects what the handler prints.
\<close>

record ('db, 'w, 'cb) ingestion =
  db :: 'db
  buffer :: "tick list"
  callbacks :: "'cb list"
  world :: 'w
  printed :: "pyexn list"

record ('db, 'w, 'cb) collaborators =
  save_tick :: "'db \<Rightarrow> tick \<Rightarrow> 'db \<times> pyexn option"
  call :: "'cb \<Rightarrow> tick \<Rightarrow> 'w \<Rightarrow> 'w \<times> pyexn option"

text \<open>\<open>for callback in self.callbacks: callback(tick)\<close>, up to the first exception.\<close>

fun run_callbacks ::
  "('cb \<Rightarrow> tick \<Rightarrow> 'w \<Rightarrow> 'w \<times> pyexn option) \<Rightarrow> 'cb list \<Rightarrow> tick \<Rightarrow> 'w \<Rightarrow> 'w \<times> pyexn option" where
  "run_callbacks f [] tk w = (w, None)"
| "run_callbacks f (c # cs) tk w =
     (case f c tk w of
        (w1, Some e) \<Rightarrow> (w1, Some e)
      | (w1, None) \<Rightarrow> run_callbacks f cs tk w1)"

text \<open>\<open>data.get('e') == 'trade'\<close>: AttributeError when the document is not a dictionary.\<close>

definition is_trade :: "json \<Rightarrow> pyexn + bool" where
  "is_trade data =
     (case data of
        JObj members \<Rightarrow> Inr (map_of members ''e'' = Some (JStr ''trade''))
      | _ \<Rightarrow> Inl AttributeError)"

text \<open>The body of the \<open>try\<close> in \<open>on_message\<close>: the state reached and the exception raised.\<close>

definition on_message_try ::
  "pylib \<Rightarrow> ('db, 'w, 'cb) collaborators \<Rightarrow> ('db, 'w, 'cb) ingestion \<Rightarrow> string
     \<Rightarrow> ('db, 'w, 'cb) ingestion \<times> pyexn option" where
  "on_message_try lib ext st message =
     (case json_loads lib message of None \<Rightarrow> (st, Some JSONDecodeError) | Some data \<Rightarrow>
      case is_trade data of Inl e \<Rightarrow> (st, Some e) | Inr False \<Rightarrow> (st, None) | Inr True \<Rightarrow>
      case normalize_tick lib data of Inl e \<Rightarrow> (st, Some e) | Inr tk \<Rightarrow>
      case save_tick ext (db st) tk of
        (db1, Some e) \<Rightarrow> (st\<lparr>db := db1\<rparr>, Some e)
      | (db1, None) \<Rightarrow>
          (let st1 = st\<lparr>db := db1, buffer := buffer_append (buffer st) tk\<rparr>;
               (w1, r) = run_callbacks (call ext) (callbacks st1) tk (world st1)
           in (st1\<lparr>world := w1\<rparr>, r)))"

text \<open>
  \<open>on_message\<close>: \<open>except Exception\<close> prints the exception and the handler returns.  The
  second component is the exception that leaves the handler.
\<close>

definition on_message ::
  "pylib \<Rightarrow> ('db, 'w, 'cb) collaborators \<Rightarrow> ('db, 'w, 'cb) ingestion \<Rightarrow> string
     \<Rightarrow> ('db, 'w, 'cb) ingestion \<times> pyexn option" where
  "on_message lib ext st message =
     (case on_message_try lib ext st message of
        (st1, Some e) \<Rightarrow> (st1\<lparr>printed := printed st1 @ [e]\<rparr>, None)
      | (st1, None) \<Rightarrow> (st1, None))"

text \<open>
  The words of the specification for a malformed trade event: a required field is
  missing, or the price or the quantity is not numeric (a string that \<open>float\<close> rejects, or
  null, an array or an object).
\<close>

definition non_numeric :: "pylib \<Rightarrow> json \<Rightarrow> bool" where
  "non_numeric lib v =
     (case v of
        JStr s \<Rightarrow> float_of_str lib s = None
      | JNull \<Rightarrow> True
      | JArr _ \<Rightarrow> True
      | JObj _ \<Rightarrow> True
      | _ \<Rightarrow> False)"

definition field_missing :: "(string \<times> json) list \<Rightarrow> bool" where
  "field_missing members =
     (map_of members ''s'' = None \<or> map_of members ''E'' = None \<or>
      map_of members ''p'' = None \<or> map_of members ''q'' = None)"

definition malformed :: "pylib \<Rightarrow> (string \<times> json) list \<Rightarrow> bool" where
  "malformed lib members =
     (field_missing members \<or>
      (case map_of members ''p'' of None \<Rightarrow> False | Some p \<Rightarrow> non_numeric lib p) \<or>
      (case map_of members ''q'' of None \<Rightarrow> False | Some q \<Rightarrow> non_numeric lib q))"

text \<open>
  A library for the examples: it knows the strings the examples use, reads the event
  time as UTC, accepts the years 1 to 9999, lets the platform fail from 10^16 seconds on,
  and reads every timestamp column.
\<close>

definition demo_lib :: pylib where
  "demo_lib =
     \<lparr>json_loads = (\<lambda>s. if s = ''{trade 101.5}'' then
          Some (JObj [(''e'', JStr ''trade''), (''s'', JStr ''BTCUSDT''),
                      (''E'', JInt 1700000000000), (''p'', JStr ''101.5''), (''q'', JStr ''2'')])
        else if s = ''{trade without p}'' then
          Some (JObj [(''e'', JStr ''trade''), (''s'', JStr ''BTCUSDT''),
                      (''E'', JInt 1700000000000), (''q'', JStr ''2'')])
        else if s = ''{trade p=abc}'' then
          Some (JObj [(''e'', JStr ''trade''), (''s'', JStr ''BTCUSDT''),
                      (''E'', JInt 1700000000000), (''p'', JStr ''abc''), (''q'', JStr ''2'')])
        else if s = ''{trade E=10^20 without q}'' then
          Some (JObj [(''e'', JStr ''trade''), (''s'', JStr ''BTCUSDT''),
                      (''E'', JInt 100000000000000000000), (''p'', JStr ''101.5'')])
        else None),
      float_of_str = (\<lambda>s. if s = ''101.5'' then Some 101.5 else if s = ''2'' then Some 2 else None),
      int_of_str = (\<lambda>s. if s = ''1'' then Some 1 else if s = ''5'' then Some 5 else None),
      fromtimestamp = (\<lambda>secs. if 10000000000000000 \<le> \<bar>secs\<bar> then StampOSError
                              else if secs < - 62135596800 \<or> 253402300800 \<le> secs
                              then StampValueError
                              else Stamp (\<lfloor>secs * 1000000\<rfloor>)),
      to_offset = (\<lambda>s. if s = ''1min'' then Some 60000000 else if s = ''1s'' then Some 1000000 else None),
      to_datetime = (\<lambda>stamps. Some stamps)\<rparr>"

text \<open>A store that keeps the ticks saved, and subscribers that record what they get.\<close>

definition demo_ext :: "(tick list, (nat \<times> tick) list, nat) collaborators" where
  "demo_ext =
     \<lparr>save_tick = (\<lambda>d tk. (d @ [tk], None)),
      call = (\<lambda>c tk w. (w @ [(c, tk)], None))\<rparr>"

definition demo_ingestion :: "(tick list, (nat \<times> tick) list, nat) ingestion" where
  "demo_ingestion = \<lparr>db = [], buffer = [], callbacks = [1, 2], world = [], printed = []\<rparr>"

section \<open>Resampling (\<open>QuantitativeAnalytics.resample_ticks\<close>)\<close>

text \<open>
  A row of the frame that \<open>get_recent_ticks\<close> returns (columns timestamp, price, size), and
  the row a saved tick becomes.
\<close>

record row =
  r_timestamp :: instant
  r_price :: real
  r_size :: real

definition row_of_tick :: "tick \<Rightarrow> row" where
  "row_of_tick tk = \<lparr>r_timestamp = t_timestamp tk, r_price = t_price tk, r_size = t_size tk\<rparr>"

text \<open>
  A row of a resampled frame, after \<open>dropna\<close> and \<open>reset_index\<close>.  A column that the frame
  does not have is \<open>None\<close>: the routes differ in the columns they produce.
\<close>

record bar =
  b_index :: "int option"
  b_timestamp :: instant
  b_open :: "real option"
  b_high :: "real option"
  b_low :: "real option"
  b_close :: real
  b_volume :: "real option"
  b_size :: "real option"

definition day :: int where
  "day = 86400000000"

text \<open>
  pandas' \<open>resample(rule)\<close> with its defaults (bins closed and labelled on the left, origin
  at midnight of the first day): the rows are put in time order (a stable sort), the
  first bin starts at the last multiple of the width, counted from the origin, that is
  not after the first timestamp, and the bins run without a gap up to the one holding the
  last timestamp.  Each bin is paired with its rows; a bin may be empty.
\<close>

definition resample_bins :: "int \<Rightarrow> row list \<Rightarrow> (instant \<times> row list) list" where
  "resample_bins w df =
     (let sorted = sort_key r_timestamp df;
          first = r_timestamp (hd sorted);
          final = r_timestamp (last sorted);
          origin = (first div day) * day;
          start = first - (first - origin) mod w;
          n = nat ((final - start) div w + 1)
      in map (\<lambda>i. let k = start + int i * w
                 in (k, filter (\<lambda>r. k \<le> r_timestamp r \<and> r_timestamp r < k + w) sorted))
           [0..<n])"

text \<open>The aggregations; on an empty bin the four price aggregations give NaN, the sum 0.\<close>

definition agg_first :: "real list \<Rightarrow> real option" where
  "agg_first xs = (case xs of [] \<Rightarrow> None | x # _ \<Rightarrow> Some x)"

definition agg_last :: "real list \<Rightarrow> real option" where
  "agg_last xs = (if xs = [] then None else Some (last xs))"

definition agg_max :: "real list \<Rightarrow> real option" where
  "agg_max xs = (case xs of [] \<Rightarrow> None | x # ys \<Rightarrow> Some (fold max ys x))"

definition agg_min :: "real list \<Rightarrow> real option" where
  "agg_min xs = (case xs of [] \<Rightarrow> None | x # ys \<Rightarrow> Some (fold min ys x))"

definition agg_sum :: "real list \<Rightarrow> real" where
  "agg_sum xs = sum_list xs"

text \<open>\<open>.ohlc()\<close>: open, high, low and close of a bin in one pass.\<close>

fun ohlc_scan :: "real \<Rightarrow> real \<Rightarrow> real \<Rightarrow> real \<Rightarrow> real list \<Rightarrow> real \<times> real \<times> real \<times> real" where
  "ohlc_scan opn hi lo cl [] = (opn, hi, lo, cl)"
| "ohlc_scan opn hi lo cl (x # xs) = ohlc_scan opn (max hi x) (min lo x) x xs"

definition agg_ohlc :: "real list \<Rightarrow> (real \<times> real \<times> real \<times> real) option" where
  "agg_ohlc xs = (case xs of [] \<Rightarrow> None | x # ys \<Rightarrow> Some (ohlc_scan x x x x ys))"

text \<open>
  The general route of both files: \<open>ohlc()\<close>, the volume assigned as a column on the same
  bins, \<open>dropna\<close>, \<open>reset_index\<close>.
\<close>

definition resample_general :: "int \<Rightarrow> row list \<Rightarrow> bar list" where
  "resample_general w df =
     concat (map (\<lambda>(k, rs).
        case agg_ohlc (map r_price rs) of
          None \<Rightarrow> []
        | Some (opn, hi, lo, cl) \<Rightarrow>
            [\<lparr>b_index = None, b_timestamp = k, b_open = Some opn, b_high = Some hi,
              b_low = Some lo, b_close = cl,
              b_volume = Some (agg_sum (map r_size rs)), b_size = None\<rparr>])
       (resample_bins w df))"

text \<open>
  The route of \<open>services/analytics.py\<close> for fewer than 10 ticks: four named aggregations
  and \<open>reset_index\<close>; the sum of sizes and \<open>reset_index\<close>; \<open>pd.merge\<close> of the two on
  timestamp (the sum keeps its column name, size); \<open>dropna\<close>; \<open>reset_index\<close>, which turns
  the position in the merged frame into a column named index.
\<close>

definition resample_small :: "int \<Rightarrow> row list \<Rightarrow> bar list" where
  "resample_small w df =
     (let bins = resample_bins w df;
          ohlc_df = map (\<lambda>(k, rs). (k, agg_first (map r_price rs), agg_max (map r_price rs),
                                      agg_min (map r_price rs), agg_last (map r_price rs))) bins;
          volume = map (\<lambda>(k, rs). (k, agg_sum (map r_size rs))) bins;
          merged = concat (map (\<lambda>(k, a). map (\<lambda>(k1, v). (k, a, v))
                                 (filter (\<lambda>(k1, v). k1 = k) volume)) ohlc_df)
      in concat (map (\<lambda>(i, k, a, v).
           case a of
             (Some opn, Some hi, Some lo, Some cl) \<Rightarrow>
               [\<lparr>b_index = Some (int i), b_timestamp = k, b_open = Some opn, b_high = Some hi,
                 b_low = Some lo, b_close = cl, b_volume = None, b_size = Some v\<rparr>]
           | _ \<Rightarrow> [])
         (zip [0..<length merged] merged)))"

text \<open>
  The route of \<open>app.py\<close> for fewer than 10 ticks: only \<open>last()\<close>, as the column close, and
  the volume.
\<close>

definition resample_small_app :: "int \<Rightarrow> row list \<Rightarrow> bar list" where
  "resample_small_app w df =
     concat (map (\<lambda>(k, rs).
        case agg_last (map r_price rs) of
          None \<Rightarrow> []
        | Some cl \<Rightarrow>
            [\<lparr>b_index = None, b_timestamp = k, b_open = None, b_high = None, b_low = None,
              b_close = cl, b_volume = Some (agg_sum (map r_size rs)), b_size = None\<rparr>])
       (resample_bins w df))"

text \<open>
  The rule of \<open>services/analytics.py\<close>, as a bin width in microseconds.  \<open>int\<close> raises
  ValueError on a bad number; a width that is not positive is rejected by pandas.
\<close>

definition resample_rule :: "pylib \<Rightarrow> string \<Rightarrow> pyexn + int" where
  "resample_rule lib interval =
     (if interval \<noteq> [] \<and> last interval = CHR ''s'' then
        (case int_of_str lib (butlast interval) of
           None \<Rightarrow> Inl ValueError
         | Some seconds \<Rightarrow> if seconds \<le> 0 then Inl LibraryError else Inr (seconds * 1000000))
      else if interval \<noteq> [] \<and> last interval = CHR ''m'' then
        (case int_of_str lib (butlast interval) of
           None \<Rightarrow> Inl ValueError
         | Some minutes \<Rightarrow> if minutes \<le> 0 then Inl LibraryError else Inr (minutes * 60000000))
      else Inr 60000000)"

text \<open>\<open>app.py\<close> hands the interval to pandas as it is.\<close>

definition resample_rule_app :: "pylib \<Rightarrow> string \<Rightarrow> pyexn + int" where
  "resample_rule_app lib interval =
     (case to_offset lib interval of
        None \<Rightarrow> Inl ValueError
      | Some w \<Rightarrow> if w \<le> 0 then Inl LibraryError else Inr w)"

text \<open>\<open>df['timestamp'] = pd.to_datetime(df['timestamp'])\<close>, once the column has been read.\<close>

definition restamp :: "row list \<Rightarrow> instant list \<Rightarrow> row list" where
  "restamp df stamps = map (\<lambda>(r, t). r\<lparr>r_timestamp := t\<rparr>) (zip df stamps)"

text \<open>
  \<open>resample_ticks\<close> of \<open>services/analytics.py\<close>.  An exception inside the \<open>try\<close> (of
  \<open>pd.to_datetime\<close>, of \<open>int\<close>, of the resampling) is printed and the empty frame returned.
\<close>

definition resample_ticks :: "pylib \<Rightarrow> row list \<Rightarrow> string \<Rightarrow> bar list" where
  "resample_ticks lib df interval =
     (if df = [] \<or> length df < 5 then []
      else case to_datetime lib (map r_timestamp df) of
             None \<Rightarrow> []
           | Some stamps \<Rightarrow>
               (case resample_rule lib interval of
                  Inl e \<Rightarrow> []
                | Inr w \<Rightarrow> if length df < 10 then resample_small w (restamp df stamps)
                           else resample_general w (restamp df stamps)))"

text \<open>\<open>resample_ticks\<close> of \<open>app.py\<close>.\<close>

definition resample_ticks_app :: "pylib \<Rightarrow> row list \<Rightarrow> string \<Rightarrow> bar list" where
  "resample_ticks_app lib df interval =
     (if df = [] \<or> length df < 5 then []
      else case to_datetime lib (map r_timestamp df) of
             None \<Rightarrow> []
           | Some stamps \<Rightarrow>
               (case resample_rule_app lib interval of
                  Inl e \<Rightarrow> []
                | Inr w \<Rightarrow> if length df < 10 then resample_small_app w (restamp df stamps)
                           else resample_general w (restamp df stamps)))"

text \<open>
  \<open>pd.merge(df1, df2, on='timestamp', suffixes=('_1', '_2'))\<close>, of which the analytics read
  the columns \<open>close_1\<close> and \<open>close_2\<close>: an inner join in the order of the left frame.
\<close>

definition merge_close :: "bar list \<Rightarrow> bar list \<Rightarrow> (real \<times> real) list" where
  "merge_close df1 df2 =
     concat (map (\<lambda>b1. map (\<lambda>b2. (b_close b1, b_close b2))
                          (filter (\<lambda>b2. b_timestamp b2 = b_timestamp b1) df2)) df1)"

text \<open>Five ticks within one minute, for the examples.\<close>

definition five_rows :: "row list" where
  "five_rows = map (\<lambda>i. \<lparr>r_timestamp = i * 1000000, r_price = 100 + of_int i, r_size = 1\<rparr>)
                 [0, 1, 2, 3, 4]"

text \<open>The exceptions that \<open>normalize_tick\<close> can raise on a dictionary.\<close>

definition builtin_errors :: "pyexn set" where
  "builtin_errors = {KeyError, ValueError, TypeError, AttributeError, OverflowError, OSError}"

text \<open>The trade events that \<open>demo_lib\<close> decodes.\<close>

definition trade_ok :: json where
  "trade_ok = JObj [(''e'', JStr ''trade''), (''s'', JStr ''BTCUSDT''),
                    (''E'', JInt 1700000000000), (''p'', JStr ''101.5''), (''q'', JStr ''2'')]"

definition trade_without_p :: "(string \<times> json) list" where
  "trade_without_p = [(''e'', JStr ''trade''), (''s'', JStr ''BTCUSDT''),
                      (''E'', JInt 1700000000000), (''q'', JStr ''2'')]"

definition trade_p_abc :: "(string \<times> json) list" where
  "trade_p_abc = [(''e'', JStr ''trade''), (''s'', JStr ''BTCUSDT''),
                  (''E'', JInt 1700000000000), (''p'', JStr ''abc''), (''q'', JStr ''2'')]"

definition trade_late_without_q :: "(string \<times> json) list" where
  "trade_late_without_q = [(''e'', JStr ''trade''), (''s'', JStr ''BTCUSDT''),
                           (''E'', JInt 100000000000000000000), (''p'', JStr ''101.5'')]"

section \<open>Analytics (\<open>QuantitativeAnalytics\<close> in \<open>services/analytics.py\<close> and in \<open>app.py\<close>)\<close>

text \<open>
  The result dictionaries.  A key that a dictionary does not have is \<open>None\<close>.  The store
  is the function \<open>get_recent_ticks\<close>, \<open>None\<close> where the query raises.
\<close>

record regression_result =
  hedge_ratio :: real
  intercept :: "real option"
  r_squared :: real
  p_value :: "real option"
  spread_mean :: real
  spread_std :: real
  current_spread :: real

record zscore_result =
  current_zscore :: real
  zscore_series :: "real list option"
  mean :: real
  std :: real

record adf_result =
  test_statistic :: real
  adf_p_value :: real
  critical_values :: "(string \<times> real) list"
  is_stationary :: bool

record correlation_result =
  current_correlation :: real
  correlation_series :: "real list"
  mean_correlation :: real

type_synonym tick_store = "string \<Rightarrow> nat \<Rightarrow> row list option"

text \<open>
  statsmodels and pandas' rolling correlation, which the repository calls and does not
  contain.  \<open>add_constant\<close> gives the rows of the design matrix; \<open>ols_fit y X\<close> the fitted
  model; \<open>adfuller\<close> the statistic, the p-value and the critical values; \<open>rolling_corr\<close>
  the windowed correlations with \<open>None\<close> for NaN.  Each is \<open>None\<close> where the call raises.
\<close>

record ols_model =
  params :: "real list"
  rsquared :: real
  f_pvalue :: "real option"

record statlib =
  add_constant :: "real list \<Rightarrow> real list list"
  ols_fit :: "real list \<Rightarrow> real list list \<Rightarrow> ols_model option"
  adfuller :: "real list \<Rightarrow> (real \<times> real \<times> (string \<times> real) list) option"
  rolling_corr :: "int \<Rightarrow> real list \<Rightarrow> real list \<Rightarrow> real option list option"

text \<open>
  The mean and the standard deviation (ddof = 0) that numpy computes, and the standard
  deviation with ddof = 1 of pandas, here without rounding.  \<open>services/analytics.py\<close> is
  modelled with them; what is proved of it below are its guards and fallbacks, which do
  not depend on the rounding.
\<close>

definition np_mean :: "real list \<Rightarrow> real" where
  "np_mean xs = sum_list xs / real (length xs)"

definition np_std :: "real list \<Rightarrow> real" where
  "np_std xs = sqrt (sum_list (map (\<lambda>x. (x - np_mean xs)\<^sup>2) xs) / real (length xs))"

definition pd_std :: "real list \<Rightarrow> real option" where
  "pd_std xs =
     (if length xs < 2 then None
      else Some (sqrt (sum_list (map (\<lambda>x. (x - np_mean xs)\<^sup>2) xs) / real (length xs - 1))))"

definition dropna :: "'a option list \<Rightarrow> 'a list" where
  "dropna xs = concat (map (\<lambda>x. case x of None \<Rightarrow> [] | Some v \<Rightarrow> [v]) xs)"

text \<open>
  The float64 arithmetic that \<open>app.py\<close> computes with: \<open>np.sum\<close>, \<open>np.mean\<close>, \<open>np.std\<close>
  (ddof = 0) of an array, and the operators \<open>+\<close>, \<open>-\<close>, \<open>*\<close>, \<open>/\<close> and \<open>** 2\<close> on floats.
  Each result is rounded, so a test such as \<open>denominator == 0\<close> or \<open>std == 0\<close> is decided on
  what these functions return, not on the exact value.
\<close>

record float_ops =
  fl_sum :: "real list \<Rightarrow> real"
  fl_mean :: "real list \<Rightarrow> real"
  fl_std :: "real list \<Rightarrow> real"
  fl_add :: "real \<Rightarrow> real \<Rightarrow> real"
  fl_sub :: "real \<Rightarrow> real \<Rightarrow> real"
  fl_mul :: "real \<Rightarrow> real \<Rightarrow> real"
  fl_div :: "real \<Rightarrow> real \<Rightarrow> real"
  fl_sq :: "real \<Rightarrow> real"

text \<open>
  The arithmetic without rounding, for the examples: on small integers, where every
  intermediate value is again a small integer, float64 computes the same.
\<close>

definition exact_float :: float_ops where
  "exact_float =
     \<lparr>fl_sum = sum_list, fl_mean = np_mean, fl_std = np_std,
      fl_add = (\<lambda>a b. a + b), fl_sub = (\<lambda>a b. a - b), fl_mul = (\<lambda>a b. a * b),
      fl_div = (\<lambda>a b. a / b), fl_sq = (\<lambda>a. a * a)\<rparr>"

text \<open>\<open>random.uniform(a, b)\<close> is \<open>a + (b - a) * random()\<close>; \<open>u\<close> is the draw, in [0, 1).\<close>

definition uniform :: "real \<Rightarrow> real \<Rightarrow> real \<Rightarrow> real" where
  "uniform a b u = a + (b - a) * u"

subsection \<open>\<open>app.py\<close>\<close>







text \<open>
  \<open>calculate_spread_zscore\<close> of \<open>app.py\<close>; \<open>u\<close> is the draw of \<open>random()\<close>.  The test
  \<open>std == 0\<close> is on the float that \<open>np.std\<close> returns.
\<close>

definition calculate_spread_zscore_app ::
  "float_ops \<Rightarrow> real \<Rightarrow> real list \<Rightarrow> int \<Rightarrow> zscore_result" where
  "calculate_spread_zscore_app fl u spread_series window =
     (if length spread_series < 5 then
        \<lparr>current_zscore = uniform (- 1) 1 u, zscore_series = None, mean = 0, std = 1\<rparr>
      else
        (let window1 = (if int (length spread_series) < window
                        then int (length spread_series) else window)
         in if window1 < 2 then
              \<lparr>current_zscore = 0, zscore_series = None,
               mean = (if length spread_series > 0 then fl_mean fl spread_series else 0),
               std = (if length spread_series > 0 then fl_std fl spread_series else 1)\<rparr>
            else
              (let recent_spread = drop (length spread_series - nat window1) spread_series;
                   mean = fl_mean fl recent_spread;
                   std = fl_std fl recent_spread;
                   zscore = (if std = 0 then 0
                             else fl_div fl (fl_sub fl (last spread_series) mean) std)
               in \<lparr>current_zscore = zscore, zscore_series = None, mean = mean, std = std\<rparr>)))"

subsection \<open>\<open>services/analytics.py\<close>\<close>

text \<open>
  \<open>Series.rolling(window=w)\<close> followed by an aggregation: NaN until the window is full,
  then the aggregate of the last \<open>w\<close> values.
\<close>

definition rolling :: "nat \<Rightarrow> (real list \<Rightarrow> real option) \<Rightarrow> real list \<Rightarrow> real option list" where
  "rolling w f xs =
     map (\<lambda>i. if i + 1 < w then None else f (take w (drop (i + 1 - w) xs))) [0..<length xs]"

definition neutral_zscore :: zscore_result where
  "neutral_zscore = \<lparr>current_zscore = 0, zscore_series = Some [], mean = 0, std = 0\<rparr>"

text \<open>
  \<open>calculate_spread_zscore\<close> of \<open>services/analytics.py\<close>.  A window of 0 makes every
  rolling value NaN and a negative one makes \<open>rolling\<close> raise; both end in the same
  dictionary.  A rolling standard deviation of 0 makes the quotient NaN.
\<close>

definition calculate_spread_zscore :: "real list \<Rightarrow> int \<Rightarrow> zscore_result" where
  "calculate_spread_zscore spread_series window =
     (if int (length spread_series) < window \<or> length spread_series < 5 then neutral_zscore
      else if window \<le> 0 then neutral_zscore
      else
        (let w = nat (min window (int (length spread_series)));
             rolling_mean = rolling w (\<lambda>v. Some (np_mean v)) spread_series;
             rolling_std = rolling w pd_std spread_series;
             zscore = map (\<lambda>(x, m, s).
                        case (m, s) of
                          (Some m1, Some s1) \<Rightarrow> if s1 = 0 then None else Some ((x - m1) / s1)
                        | _ \<Rightarrow> None)
                      (zip spread_series (zip rolling_mean rolling_std))
         in \<lparr>current_zscore = (case last zscore of Some z \<Rightarrow> z | None \<Rightarrow> 0),
             zscore_series = Some (dropna zscore),
             mean = (case last rolling_mean of Some m \<Rightarrow> m | None \<Rightarrow> 0),
             std = (case last rolling_std of Some s \<Rightarrow> s | None \<Rightarrow> 0)\<rparr>))"

text \<open>\<open>X[:, 1]\<close>: IndexError unless the matrix has a second column.\<close>

definition column1 :: "real list list \<Rightarrow> real list option" where
  "column1 X = (if list_all (\<lambda>r. 1 < length r) X then Some (map (\<lambda>r. r ! 1) X) else None)"

text \<open>
  The body of the \<open>try\<close> in \<open>pairwise_regression\<close> of \<open>services/analytics.py\<close>; the inner
  \<open>None\<close> is the \<open>return None\<close> of the source.  (The NaN test never holds: \<open>dropna\<close> has
  removed every NaN.)
\<close>

definition pairwise_regression_try ::
  "pylib \<Rightarrow> statlib \<Rightarrow> tick_store \<Rightarrow> string \<Rightarrow> string \<Rightarrow> string
     \<Rightarrow> pyexn + regression_result option" where
  "pairwise_regression_try lib stat get_recent_ticks symbol1 symbol2 timeframe =
     (case get_recent_ticks symbol1 500 of None \<Rightarrow> Inl DatabaseError | Some df1 \<Rightarrow>
      case get_recent_ticks symbol2 500 of None \<Rightarrow> Inl DatabaseError | Some df2 \<Rightarrow>
      if df1 = [] \<or> df2 = [] \<or> length df1 < 10 \<or> length df2 < 10 then Inr None
      else
        (let df1_resampled = resample_ticks lib df1 timeframe;
             df2_resampled = resample_ticks lib df2 timeframe
         in if df1_resampled = [] \<or> df2_resampled = [] then Inr None
            else
              (let merged = merge_close df1_resampled df2_resampled
               in if length merged < 5 then Inr None
                  else
                    (let y = map snd merged;
                         X = add_constant stat (map fst merged)
                     in case ols_fit stat y X of None \<Rightarrow> Inl LibraryError | Some model \<Rightarrow>
                        (let ratio = (if length (params model) > 1 then params model ! 1 else 0)
                         in case column1 X of None \<Rightarrow> Inl IndexError | Some x1 \<Rightarrow>
                            (let spread = map (\<lambda>(b, a). b - ratio * a) (zip y x1)
                             in case params model of [] \<Rightarrow> Inl IndexError | p0 # _ \<Rightarrow>
                                Inr (Some
                                  \<lparr>hedge_ratio = ratio, intercept = Some p0,
                                   r_squared = rsquared model,
                                   p_value = Some (case f_pvalue model of Some p \<Rightarrow> p | None \<Rightarrow> 0),
                                   spread_mean = (if length spread > 0 then np_mean spread else 0),
                                   spread_std = (if length spread > 0 then np_std spread else 0),
                                   current_spread = (if length spread > 0 then last spread else 0)\<rparr>)))))))"

text \<open>\<open>pairwise_regression\<close>: \<open>except Exception\<close> prints and returns \<open>None\<close>.\<close>

definition pairwise_regression ::
  "pylib \<Rightarrow> statlib \<Rightarrow> tick_store \<Rightarrow> string \<Rightarrow> string \<Rightarrow> string \<Rightarrow> regression_result option" where
  "pairwise_regression lib stat get_recent_ticks symbol1 symbol2 timeframe =
     (case pairwise_regression_try lib stat get_recent_ticks symbol1 symbol2 timeframe of
        Inl e \<Rightarrow> None
      | Inr r \<Rightarrow> r)"

definition adf_fallback :: adf_result where
  "adf_fallback =
     \<lparr>test_statistic = 0, adf_p_value = 1.0,
      critical_values = [(''1%'', 0), (''5%'', 0), (''10%'', 0)], is_stationary = False\<rparr>"

text \<open>\<open>adf_test\<close>; a NaN of the series is \<open>None\<close>.\<close>

definition adf_test :: "statlib \<Rightarrow> real option list \<Rightarrow> adf_result" where
  "adf_test stat series =
     (if length series < 10 then adf_fallback
      else
        (let series_clean = dropna series
         in if length series_clean < 10 then adf_fallback
            else case adfuller stat series_clean of
                   None \<Rightarrow> adf_fallback
                 | Some (statistic, p, crit) \<Rightarrow>
                     \<lparr>test_statistic = statistic, adf_p_value = p, critical_values = crit,
                      is_stationary = (p \<le> 0.05)\<rparr>))"

definition zero_correlation :: correlation_result where
  "zero_correlation =
     \<lparr>current_correlation = 0, correlation_series = [], mean_correlation = 0\<rparr>"

definition rolling_correlation_try ::
  "pylib \<Rightarrow> statlib \<Rightarrow> tick_store \<Rightarrow> string \<Rightarrow> string \<Rightarrow> int \<Rightarrow> string
     \<Rightarrow> pyexn + correlation_result option" where
  "rolling_correlation_try lib stat get_recent_ticks symbol1 symbol2 window timeframe =
     (case get_recent_ticks symbol1 500 of None \<Rightarrow> Inl DatabaseError | Some df1 \<Rightarrow>
      case get_recent_ticks symbol2 500 of None \<Rightarrow> Inl DatabaseError | Some df2 \<Rightarrow>
      if df1 = [] \<or> df2 = [] then Inr None
      else
        (let df1_resampled = resample_ticks lib df1 timeframe;
             df2_resampled = resample_ticks lib df2 timeframe
         in if df1_resampled = [] \<or> df2_resampled = [] then Inr None
            else
              (let merged = merge_close df1_resampled df2_resampled
               in if int (length merged) < window then Inr (Some zero_correlation)
                  else
                    case rolling_corr stat (min window (int (length merged)))
                           (map fst merged) (map snd merged) of
                      None \<Rightarrow> Inl LibraryError
                    | Some corr \<Rightarrow>
                        if corr = [] then Inl IndexError
                        else Inr (Some
                          \<lparr>current_correlation = (case last corr of Some c \<Rightarrow> c | None \<Rightarrow> 0),
                           correlation_series = dropna corr,
                           mean_correlation =
                             (if dropna corr = [] then 0 else np_mean (dropna corr))\<rparr>))))"

text \<open>\<open>rolling_correlation\<close>: \<open>except Exception\<close> prints and returns the zero dictionary.\<close>

definition rolling_correlation ::
  "pylib \<Rightarrow> statlib \<Rightarrow> tick_store \<Rightarrow> string \<Rightarrow> string \<Rightarrow> int \<Rightarrow> string
     \<Rightarrow> correlation_result option" where
  "rolling_correlation lib stat get_recent_ticks symbol1 symbol2 window timeframe =
     (case rolling_correlation_try lib stat get_recent_ticks symbol1 symbol2 window timeframe of
        Inl e \<Rightarrow> Some zero_correlation
      | Inr r \<Rightarrow> r)"



definition store_of :: "(string \<times> row list) list \<Rightarrow> tick_store" where
  "store_of frames = (\<lambda>symb limit. case map_of frames symb of
                                      None \<Rightarrow> Some []
                                    | Some df \<Rightarrow> Some (drop (length df - limit) df))"

definition demo_stat :: statlib where
  "demo_stat =
     \<lparr>add_constant = (\<lambda>xs. map (\<lambda>x. [1, x]) xs),
      ols_fit = (\<lambda>y X. if map (\<lambda>r. r ! 1) X = y
                       then Some \<lparr>params = [0, 1], rsquared = 1, f_pvalue = Some 0\<rparr>
                       else None),
      adfuller = (\<lambda>xs. None),
      rolling_corr = (\<lambda>w xs ys. None)\<rparr>"

definition ten_rows :: "row list" where
  "ten_rows = map (\<lambda>i. \<lparr>r_timestamp = i * 30000000, r_price = 100 + of_int i, r_size = 1\<rparr>)
                [0, 1, 2, 3, 4, 5, 6, 7, 8, 9]"

section \<open>Properties of the ingestion buffer\<close>

lemma buffer_append_drop:
  "buffer_append buf tk = drop (length buf + 1 - 1000) (buf @ [tk])" if "length buf \<le> 1000"
proof (cases "length buf = 1000")
  case True
  then have "buf \<noteq> []" by auto
  with True show ?thesis
    by (simp add: buffer_append_def drop_Suc)
next
  case False
  with that have "length buf < 1000" by simp
  then show ?thesis by (simp add: buffer_append_def)
qed

lemma buffer_appends_drop:
  "length buf \<le> 1000 \<Longrightarrow>
   buffer_appends buf tks = drop (length buf + length tks - 1000) (buf @ tks)"
proof (induction tks arbitrary: buf)
  case Nil
  then show ?case by simp
next
  case (Cons tk tks)
  let ?b = "buffer_append buf tk"
  have eq: "?b = drop (length buf + 1 - 1000) (buf @ [tk])"
    using Cons.prems by (rule buffer_append_drop)
  have len: "length ?b \<le> 1000"
    using Cons.prems by (simp add: eq)
  have "buffer_appends ?b tks = drop (length ?b + length tks - 1000) (?b @ tks)"
    using len by (rule Cons.IH)
  also have "\<dots> = drop (length buf + length (tk # tks) - 1000) (buf @ tk # tks)"
  proof (cases "length buf = 1000")
    case True
    then have "buf \<noteq> []" by auto
    with True show ?thesis by (simp add: eq drop_Suc drop_tl)
  next
    case False
    with Cons.prems have "length buf < 1000" by simp
    then show ?thesis by (simp add: eq)
  qed
  finally show ?case by simp
qed

text \<open>
  C1.  Starting from the empty buffer of \<open>__init__\<close>, after any sequence of appended ticks
  the buffer has \<open>min N 1000\<close> entries and they are the most recent ones, in the order in
  which they were appended: only entries at the old end are ever evicted.
\<close>

theorem buffer_holds_most_recent:
  "length (buffer_appends [] tks) = min (length tks) 1000 \<and>
   buffer_appends [] tks = drop (length tks - 1000) tks"
  using buffer_appends_drop [of "[]" tks] by simp

section \<open>Properties of the alert service\<close>

lemma check_loop_eq:
  "check_loop now tk as seen trig =
     (seen @ map (visit now tk) as,
      trig @ map (mark_triggered now (t_price tk)) (filter (fires tk) as))"
  by (induction as arbitrary: seen trig) (auto simp: visit_def fires_def Let_def)

lemma check_price_alert_eq:
  "check_price_alert svc now tk =
     (svc\<lparr>alerts := map (visit now tk) (alerts svc),
          notified := notified svc @
            notify_all (alert_callbacks svc)
              (map (mark_triggered now (t_price tk)) (filter (fires tk) (alerts svc)))\<rparr>,
      map (mark_triggered now (t_price tk)) (filter (fires tk) (alerts svc)))"
  by (simp add: check_price_alert_def check_loop_eq)

lemma visit_triggered: "triggered a \<Longrightarrow> visit now tk a = a"
  by (simp add: visit_def fires_def)

lemma triggered_visit: "fires tk a \<Longrightarrow> triggered (visit now tk a)"
  by (simp add: visit_def mark_triggered_def)

lemma check_ticks_eq:
  "snd (check_ticks svc ticks) = rounds (alerts svc) ticks \<and>
   alerts (fst (check_ticks svc ticks)) = finals (alerts svc) ticks"
proof (induction ticks arbitrary: svc)
  case Nil
  show ?case by simp
next
  case (Cons p ticks)
  obtain now tk where p: "p = (now, tk)" by (cases p)
  show ?case
    using Cons.IH [of "fst (check_price_alert svc now tk)"]
    by (auto simp: p check_price_alert_eq split: prod.splits)
qed

text \<open>Each check treats every alert on its own: a round is the rounds of the single alerts.\<close>

lemma rounds_concat:
  "rounds as ticks = map (\<lambda>k. concat (map (\<lambda>a. rounds [a] ticks ! k) as)) [0..<length ticks]"
proof (induction ticks arbitrary: as)
  case Nil
  show ?case by simp
next
  case (Cons p ticks)
  obtain now tk where p: "p = (now, tk)" by (cases p)
  have first: "map (mark_triggered now (t_price tk)) (filter (fires tk) as) =
      concat (map (\<lambda>a. map (mark_triggered now (t_price tk)) (filter (fires tk) [a])) as)"
    by (induction as) auto
  have "rounds (map (visit now tk) as) ticks =
      map (\<lambda>k. concat (map (\<lambda>a. rounds [a] ticks ! k) (map (visit now tk) as))) [0..<length ticks]"
    by (rule Cons.IH)
  then show ?case
    by (simp add: p first upt_rec [of 0 "Suc (length ticks)"] map_Suc_upt [symmetric] o_def
             del: upt_Suc)
qed

lemma rounds_single:
  "length (concat (rounds [a] ticks)) \<le> (if triggered a then 0 else 1)"
proof (induction ticks arbitrary: a)
  case Nil
  show ?case by simp
next
  case (Cons p ticks)
  obtain now tk where p: "p = (now, tk)" by (cases p)
  show ?case
  proof (cases "fires tk a")
    case True
    then have "triggered (visit now tk a)" by (rule triggered_visit)
    with Cons.IH [of "visit now tk a"] True show ?thesis
      by (simp add: p fires_def)
  next
    case False
    then have "visit now tk a = a" by (simp add: visit_def)
    with Cons.IH [of a] False show ?thesis by (simp add: p)
  qed
qed

lemma finals_frozen:
  "i < length as \<Longrightarrow> triggered (as ! i) \<Longrightarrow> finals as ticks ! i = as ! i"
proof (induction ticks arbitrary: as)
  case Nil
  show ?case by simp
next
  case (Cons p ticks)
  obtain now tk where p: "p = (now, tk)" by (cases p)
  from Cons.prems have "map (visit now tk) as ! i = as ! i"
    by (simp add: visit_triggered)
  with Cons.IH [of "map (visit now tk) as"] Cons.prems show ?case
    by (simp add: p)
qed

lemma finals_length: "length (finals as ticks) = length as"
  by (induction as ticks rule: finals.induct) auto

text \<open>The subscribers receive exactly the lists that the checks return, and stay registered.\<close>

lemma check_ticks_notified:
  "notified (fst (check_ticks svc ticks)) =
     notified svc @ concat (map (notify_all (alert_callbacks svc)) (snd (check_ticks svc ticks)))
   \<and> alert_callbacks (fst (check_ticks svc ticks)) = alert_callbacks svc"
proof (induction ticks arbitrary: svc)
  case Nil
  show ?case by simp
next
  case (Cons p ticks)
  obtain now tk where p: "p = (now, tk)" by (cases p)
  show ?case
    using Cons.IH [of "fst (check_price_alert svc now tk)"]
    by (auto simp: p check_price_alert_eq split: prod.splits)
qed

text \<open>
  C6.  Over any sequence of checks on any alert list: (1) the list returned by the k-th
  check is made of what each alert, taken alone, fires at the k-th check; (2) an alert
  taken alone fires at most once over the whole sequence, and never when it is already
  triggered; (3) no alert appears or disappears; (4) an alert that is triggered is left
  exactly as it is by every later check, so its flag went from false to true at most once;
  (5) the subscribers are notified of exactly the alerts in the returned lists.
\<close>

theorem alert_fires_at_most_once:
  "snd (check_ticks svc ticks) =
     map (\<lambda>k. concat (map (\<lambda>a. snd (check_ticks (svc\<lparr>alerts := [a]\<rparr>) ticks) ! k) (alerts svc)))
       [0..<length ticks]
   \<and> (\<forall>a. length (concat (snd (check_ticks (svc\<lparr>alerts := [a]\<rparr>) ticks)))
           \<le> (if triggered a then 0 else 1))
   \<and> length (alerts (fst (check_ticks svc ticks))) = length (alerts svc)
   \<and> (\<forall>i < length (alerts svc).
         triggered (alerts svc ! i) \<longrightarrow> alerts (fst (check_ticks svc ticks)) ! i = alerts svc ! i)
   \<and> notified (fst (check_ticks svc ticks)) =
       notified svc @ concat (map (notify_all (alert_callbacks svc)) (snd (check_ticks svc ticks)))"
  using rounds_concat [of "alerts svc" ticks] check_ticks_notified [of svc ticks]
  by (simp add: check_ticks_eq rounds_single finals_frozen finals_length)

text \<open>
  The scenario of the specification: the alert fires on the tick at 101, is then triggered,
  and the tick at 102 fires nothing and leaves it as it is.
\<close>

theorem alert_fires_at_most_once_witness:
  "snd (check_ticks demo_alerts [(''t1'', tick_x 101), (''t2'', tick_x 102)]) =
     [[mark_triggered ''t1'' 101 (hd (alerts demo_alerts))], []]
   \<and> 0 < length (alerts (fst (check_price_alert demo_alerts ''t1'' (tick_x 101))))
   \<and> triggered (alerts (fst (check_price_alert demo_alerts ''t1'' (tick_x 101))) ! 0)
   \<and> alerts (fst (check_ticks (fst (check_price_alert demo_alerts ''t1'' (tick_x 101)))
                  [(''t2'', tick_x 102)])) ! 0
       = alerts (fst (check_price_alert demo_alerts ''t1'' (tick_x 101))) ! 0
   \<and> length (concat (snd (check_ticks demo_alerts [(''t1'', tick_x 101), (''t2'', tick_x 102)]))) \<le> 1
   \<and> notified (fst (check_ticks demo_alerts [(''t1'', tick_x 101), (''t2'', tick_x 102)])) =
       [(7, mark_triggered ''t1'' 101 (hd (alerts demo_alerts)))]"
proof -
  let ?s1 = "fst (check_price_alert demo_alerts ''t1'' (tick_x 101))"
  let ?two = "[(''t1'', tick_x 101), (''t2'', tick_x 102)]"
  have d: "demo_alerts =
      \<lparr>alerts = [\<lparr>a_id = 1, a_name = ''breakout'', a_condition = ''above'', a_symbol = ''x'',
                   a_threshold = 100, is_active = True, triggered = False, created_at = ''t0'',
                   triggered_at = None, triggered_price = None\<rparr>],
       triggered_alerts = [], is_monitoring = False, alert_callbacks = [7], notified = []\<rparr>"
    by (simp add: demo_alerts_def create_alert_def add_alert_callback_def
        init_alert_service_def Let_def)
  have s1: "alerts ?s1 = [mark_triggered ''t1'' 101 (hd (alerts demo_alerts))]"
    by (simp add: d check_price_alert_eq visit_def fires_def tick_x_def)
  have h1: "0 < length (alerts ?s1)" and h2: "triggered (alerts ?s1 ! 0)"
    by (simp_all add: s1 mark_triggered_def)
  have frozen: "alerts (fst (check_ticks ?s1 [(''t2'', tick_x 102)])) ! 0 = alerts ?s1 ! 0"
    using alert_fires_at_most_once [of ?s1 "[(''t2'', tick_x 102)]"] h1 h2 by blast
  have same: "demo_alerts\<lparr>alerts := [hd (alerts demo_alerts)]\<rparr> = demo_alerts"
    by (simp add: d)
  have "length (concat (snd (check_ticks (demo_alerts\<lparr>alerts := [hd (alerts demo_alerts)]\<rparr>)
                 ?two))) \<le> (if triggered (hd (alerts demo_alerts)) then 0 else 1)"
    using alert_fires_at_most_once [of demo_alerts ?two] by blast
  then have once: "length (concat (snd (check_ticks demo_alerts ?two))) \<le> 1"
    by (simp add: same d)
  have r: "snd (check_ticks demo_alerts ?two) =
     [[mark_triggered ''t1'' 101 (hd (alerts demo_alerts))], []]"
    by (simp add: check_price_alert_eq d visit_def fires_def mark_triggered_def tick_x_def)
  have "notified (fst (check_ticks demo_alerts ?two)) =
      notified demo_alerts @
        concat (map (notify_all (alert_callbacks demo_alerts)) (snd (check_ticks demo_alerts ?two)))"
    using alert_fires_at_most_once [of demo_alerts ?two] by blast
  then have n: "notified (fst (check_ticks demo_alerts ?two)) =
      [(7, mark_triggered ''t1'' 101 (hd (alerts demo_alerts)))]"
    unfolding r by (simp add: d notify_all_def)
  from r h1 h2 frozen once n show ?thesis by simp
qed

text \<open>
  C10.  \<open>create_alert\<close> gives the new alert the id \<open>len(alerts) + 1\<close>; \<open>remove_alert\<close> keeps
  exactly the alerts with another id, in order.  So after create, create, remove 1, create
  the two live alerts (named B and C) both have id 2, and one \<open>remove_alert 2\<close> deletes both.
\<close>

theorem create_alert_reuses_ids:
  "a_id (snd (create_alert svc now name condition symb threshold)) = length (alerts svc) + 1
   \<and> alerts (fst (create_alert svc now name condition symb threshold))
       = alerts svc @ [snd (create_alert svc now name condition symb threshold)]
   \<and> alerts (remove_alert svc alert_id) = filter (\<lambda>alert. a_id alert \<noteq> alert_id) (alerts svc)
   \<and> (let s1 = fst (create_alert (init_alert_service :: nat alert_service)
                      ''t1'' ''A'' ''above'' ''x'' 1);
           s2 = fst (create_alert s1 ''t2'' ''B'' ''above'' ''x'' 2);
           s3 = remove_alert s2 1;
           s4 = fst (create_alert s3 ''t3'' ''C'' ''below'' ''y'' 3)
       in map a_id (alerts s4) = [2, 2] \<and> map a_name (alerts s4) = [''B'', ''C'']
          \<and> length (alerts s4) - length (alerts (remove_alert s4 2)) = 2
          \<and> alerts (remove_alert s4 2) = [])"
  by (simp add: create_alert_def remove_alert_def init_alert_service_def Let_def)

section \<open>Properties of tick normalisation and the feed handler\<close>

lemma subscript_obj:
  "subscript (JObj members) key =
     (case map_of members key of None \<Rightarrow> Inl KeyError | Some v \<Rightarrow> Inr v)"
  by (simp add: subscript_def)

lemma py_lower_err: "py_lower v = Inl e \<Longrightarrow> e = AttributeError"
  by (auto simp: py_lower_def split: json.splits)

lemma py_float_err: "py_float lib v = Inl e \<Longrightarrow> e \<in> {ValueError, OverflowError, TypeError}"
  by (auto simp: py_float_def split: json.splits option.splits if_splits)

lemma py_div_1000_err: "py_div_1000 v = Inl e \<Longrightarrow> e \<in> {OverflowError, TypeError}"
  by (auto simp: py_div_1000_def split: json.splits if_splits)

lemma non_numeric_fails: "non_numeric lib v \<Longrightarrow> \<exists>e. py_float lib v = Inl e"
  by (auto simp: non_numeric_def py_float_def split: json.splits)

lemma normalize_tick_err:
  "normalize_tick lib (JObj members) = Inl e \<Longrightarrow> e \<in> builtin_errors"
  unfolding normalize_tick_def subscript_obj builtin_errors_def
  by (auto split: sum.splits option.splits stamp.splits
      dest!: py_lower_err py_float_err py_div_1000_err)

lemma normalize_tick_ok:
  "normalize_tick lib (JObj members) = Inr tk \<Longrightarrow>
   \<exists>s ev p q. map_of members ''s'' = Some s \<and> map_of members ''E'' = Some ev \<and>
     map_of members ''p'' = Some p \<and> map_of members ''q'' = Some q \<and>
     py_float lib p = Inr (t_price tk) \<and> py_float lib q = Inr (t_size tk)"
  unfolding normalize_tick_def subscript_obj
  by (auto split: sum.splits option.splits stamp.splits)

lemma malformed_fails:
  assumes "malformed lib members"
  shows "\<exists>e. normalize_tick lib (JObj members) = Inl e \<and> e \<in> builtin_errors"
proof (cases "normalize_tick lib (JObj members)")
  case (Inl e)
  then show ?thesis using normalize_tick_err by blast
next
  case (Inr tk)
  from normalize_tick_ok [OF Inr] obtain s ev p q where
    "map_of members ''s'' = Some s" "map_of members ''E'' = Some ev"
    "map_of members ''p'' = Some p" "map_of members ''q'' = Some q"
    "py_float lib p = Inr (t_price tk)" "py_float lib q = Inr (t_size tk)" by blast
  with assms have False
    by (auto simp: malformed_def field_missing_def dest: non_numeric_fails)
  then show ?thesis ..
qed

lemma on_message_returns: "snd (on_message lib ext st message) = None"
  by (simp add: on_message_def split: prod.splits option.splits)

text \<open>
  C9, as the code has it.  For a trade event with a required field missing or a price or
  quantity that is not numeric, \<open>normalize_tick\<close> raises one of Python's built-in
  exceptions (KeyError, ValueError, TypeError, AttributeError, OverflowError or OSError,
  the last three also from an event time that is ill-typed or that
  \<open>datetime.fromtimestamp\<close> rejects; never a MalformedTickError, which the code does not
  define) and builds no tick; \<open>on_message\<close> then leaves the store, the buffer and the
  subscribers untouched, prints the exception and returns.  No message at all makes
  \<open>on_message\<close> raise.
\<close>

theorem malformed_trade_is_dropped:
  assumes "json_loads lib message = Some (JObj members)"
    and "map_of members ''e'' = Some (JStr ''trade'')"
    and "malformed lib members"
  shows "(\<exists>e. normalize_tick lib (JObj members) = Inl e
            \<and> e \<in> {KeyError, ValueError, TypeError, AttributeError, OverflowError, OSError}
            \<and> e \<noteq> MalformedTickError
            \<and> on_message lib ext st message = (st\<lparr>printed := printed st @ [e]\<rparr>, None))
         \<and> (\<forall>other. snd (on_message lib ext st other) = None)"
proof -
  from malformed_fails [OF assms(3)] obtain e where
    e: "normalize_tick lib (JObj members) = Inl e" "e \<in> builtin_errors" by blast
  have "on_message lib ext st message = (st\<lparr>printed := printed st @ [e]\<rparr>, None)"
    by (simp add: on_message_def on_message_try_def is_trade_def assms(1,2) e(1))
  with e show ?thesis by (auto simp: builtin_errors_def on_message_returns)
qed

lemma demo_loads_without_p:
  "json_loads demo_lib ''{trade without p}'' = Some (JObj trade_without_p)"
  by (simp add: demo_lib_def trade_without_p_def)

lemma demo_normalize_without_p:
  "normalize_tick demo_lib (JObj trade_without_p) = Inl KeyError"
  by (simp add: normalize_tick_def subscript_def trade_without_p_def py_lower_def
      py_div_1000_def demo_lib_def)

lemma demo_loads_late_without_q:
  "json_loads demo_lib ''{trade E=10^20 without q}'' = Some (JObj trade_late_without_q)"
  by (simp add: demo_lib_def trade_late_without_q_def)

lemma demo_normalize_late_without_q:
  "normalize_tick demo_lib (JObj trade_late_without_q) = Inl OSError"
  by (simp add: normalize_tick_def subscript_def trade_late_without_q_def py_lower_def
      py_div_1000_def demo_lib_def)

text \<open>
  An event without a price is dropped with KeyError; an event without a quantity whose
  event time is 10^20 milliseconds is dropped with the OSError of \<open>fromtimestamp\<close>.
\<close>

theorem malformed_trade_is_dropped_witness:
  "json_loads demo_lib ''{trade without p}'' = Some (JObj trade_without_p)
   \<and> map_of trade_without_p ''e'' = Some (JStr ''trade'')
   \<and> malformed demo_lib trade_without_p
   \<and> on_message demo_lib demo_ext demo_ingestion ''{trade without p}''
       = (demo_ingestion\<lparr>printed := [KeyError]\<rparr>, None)
   \<and> json_loads demo_lib ''{trade E=10^20 without q}'' = Some (JObj trade_late_without_q)
   \<and> map_of trade_late_without_q ''e'' = Some (JStr ''trade'')
   \<and> malformed demo_lib trade_late_without_q
   \<and> on_message demo_lib demo_ext demo_ingestion ''{trade E=10^20 without q}''
       = (demo_ingestion\<lparr>printed := [OSError]\<rparr>, None)"
proof -
  have h2: "map_of trade_without_p ''e'' = Some (JStr ''trade'')"
    by (simp add: trade_without_p_def)
  have h3: "malformed demo_lib trade_without_p"
    by (simp add: malformed_def field_missing_def trade_without_p_def)
  from malformed_trade_is_dropped [OF demo_loads_without_p h2 h3, of demo_ext demo_ingestion]
  obtain e where "normalize_tick demo_lib (JObj trade_without_p) = Inl e"
    and "on_message demo_lib demo_ext demo_ingestion ''{trade without p}''
           = (demo_ingestion\<lparr>printed := printed demo_ingestion @ [e]\<rparr>, None)"
    by blast
  with demo_normalize_without_p
  have a: "on_message demo_lib demo_ext demo_ingestion ''{trade without p}''
       = (demo_ingestion\<lparr>printed := [KeyError]\<rparr>, None)"
    by (simp add: demo_ingestion_def)
  have k2: "map_of trade_late_without_q ''e'' = Some (JStr ''trade'')"
    by (simp add: trade_late_without_q_def)
  have k3: "malformed demo_lib trade_late_without_q"
    by (simp add: malformed_def field_missing_def trade_late_without_q_def)
  from malformed_trade_is_dropped [OF demo_loads_late_without_q k2 k3, of demo_ext demo_ingestion]
  obtain e where "normalize_tick demo_lib (JObj trade_late_without_q) = Inl e"
    and "on_message demo_lib demo_ext demo_ingestion ''{trade E=10^20 without q}''
           = (demo_ingestion\<lparr>printed := printed demo_ingestion @ [e]\<rparr>, None)"
    by blast
  with demo_normalize_late_without_q
  have b: "on_message demo_lib demo_ext demo_ingestion ''{trade E=10^20 without q}''
       = (demo_ingestion\<lparr>printed := [OSError]\<rparr>, None)"
    by (simp add: demo_ingestion_def)
  from demo_loads_without_p h2 h3 a demo_loads_late_without_q k2 k3 b show ?thesis
    by simp
qed

text \<open>
  C9 as the specification words it fails: the event without a price makes
  \<open>normalize_tick\<close> raise KeyError, the one with the price abc ValueError.
\<close>

theorem malformed_tick_error_counterexample:
  "normalize_tick demo_lib (JObj trade_without_p) = Inl KeyError
   \<and> normalize_tick demo_lib (JObj trade_p_abc) = Inl ValueError
   \<and> normalize_tick demo_lib (JObj trade_without_p) \<noteq> Inl MalformedTickError
   \<and> normalize_tick demo_lib (JObj trade_p_abc) \<noteq> Inl MalformedTickError"
  by (simp add: normalize_tick_def subscript_def trade_without_p_def trade_p_abc_def
      py_lower_def py_div_1000_def py_float_def demo_lib_def)

section \<open>Properties of resampling\<close>

lemma restamp_same: "restamp df (map r_timestamp df) = df"
  by (induction df) (simp_all add: restamp_def)

lemma demo_to_datetime: "to_datetime demo_lib stamps = Some stamps"
  by (simp add: demo_lib_def)

lemma demo_normalize_ok:
  "normalize_tick demo_lib trade_ok =
     Inr \<lparr>t_symbol = ''btcusdt'', t_timestamp = 1700000000000000, t_price = 101.5, t_size = 2\<rparr>"
  by (simp add: normalize_tick_def subscript_def trade_ok_def py_lower_def lower_char_def
      py_div_1000_def py_float_def demo_lib_def)

text \<open>
  C8, as the code has it.  Both \<open>resample_ticks\<close> return the empty frame for fewer than 5
  rows, so the single tick of a normalised message gives no bar, for every interval.
\<close>

theorem single_tick_resamples_to_nothing:
  "normalize_tick lib data = Inr tk \<Longrightarrow>
   resample_ticks lib [row_of_tick tk] interval = [] \<and>
   resample_ticks_app lib [row_of_tick tk] interval = []"
  by (simp add: resample_ticks_def resample_ticks_app_def)

theorem single_tick_resamples_to_nothing_witness:
  "normalize_tick demo_lib trade_ok =
     Inr \<lparr>t_symbol = ''btcusdt'', t_timestamp = 1700000000000000, t_price = 101.5, t_size = 2\<rparr>
   \<and> resample_ticks demo_lib
       [row_of_tick \<lparr>t_symbol = ''btcusdt'', t_timestamp = 1700000000000000,
                     t_price = 101.5, t_size = 2\<rparr>] ''1m'' = []
   \<and> resample_ticks_app demo_lib
       [row_of_tick \<lparr>t_symbol = ''btcusdt'', t_timestamp = 1700000000000000,
                     t_price = 101.5, t_size = 2\<rparr>] ''1min'' = []"
  using single_tick_resamples_to_nothing [OF demo_normalize_ok, of "''1m''"]
    single_tick_resamples_to_nothing [OF demo_normalize_ok, of "''1min''"]
    demo_normalize_ok
  by simp

text \<open>
  C8 as the specification words it fails: the tick of the well-formed trade event does
  not resample to a one-bar series, in either file.
\<close>

theorem single_tick_one_bar_counterexample:
  "normalize_tick demo_lib trade_ok =
     Inr \<lparr>t_symbol = ''btcusdt'', t_timestamp = 1700000000000000, t_price = 101.5, t_size = 2\<rparr>
   \<and> length (resample_ticks demo_lib
       [row_of_tick \<lparr>t_symbol = ''btcusdt'', t_timestamp = 1700000000000000,
                     t_price = 101.5, t_size = 2\<rparr>] ''1m'') \<noteq> 1
   \<and> length (resample_ticks_app demo_lib
       [row_of_tick \<lparr>t_symbol = ''btcusdt'', t_timestamp = 1700000000000000,
                     t_price = 101.5, t_size = 2\<rparr>] ''1min'') \<noteq> 1"
  by (simp add: resample_ticks_def resample_ticks_app_def normalize_tick_def subscript_def
      trade_ok_def py_lower_def lower_char_def py_div_1000_def py_float_def demo_lib_def)

lemma ohlc_scan_eq:
  "ohlc_scan opn hi lo cl xs = (opn, fold max xs hi, fold min xs lo, last (cl # xs))"
  by (induction xs arbitrary: hi lo cl) (auto simp: max.commute min.commute)

lemma agg_ohlc_eq:
  "agg_ohlc xs =
     (case (agg_first xs, agg_max xs, agg_min xs, agg_last xs) of
        (Some opn, Some hi, Some lo, Some cl) \<Rightarrow> Some (opn, hi, lo, cl)
      | _ \<Rightarrow> None)"
  by (cases xs) (simp_all add: agg_ohlc_def agg_first_def agg_max_def agg_min_def agg_last_def
      ohlc_scan_eq)

lemma agg_ohlc_nonempty:
  assumes "xs \<noteq> []"
  shows "agg_ohlc xs = Some (hd xs, Max (set xs), Min (set xs), last xs)"
proof (cases xs)
  case Nil
  with assms show ?thesis by simp
next
  case (Cons x ys)
  have "fold max ys x = Max (set xs)" "fold min ys x = Min (set xs)"
    unfolding Cons by (rule Max.set_eq_fold [symmetric], rule Min.set_eq_fold [symmetric])
  then show ?thesis
    by (simp add: agg_ohlc_def ohlc_scan_eq Cons)
qed

lemma filter_key_distinct:
  "distinct (map fst ps) \<Longrightarrow> (k, x) \<in> set ps \<Longrightarrow> filter (\<lambda>(k1, v). k1 = k) ps = [(k, x)]"
proof (induction ps)
  case Nil
  then show ?case by simp
next
  case (Cons p ps)
  show ?case
  proof (cases "p = (k, x)")
    case True
    with Cons.prems have "\<forall>q \<in> set ps. fst q \<noteq> k" by (auto simp: image_iff)
    then have "filter (\<lambda>(k1, v). k1 = k) ps = []" by (auto simp: filter_empty_conv)
    with True show ?thesis by simp
  next
    case False
    with Cons.prems have in_ps: "(k, x) \<in> set ps" by simp
    with Cons.prems have "fst p \<noteq> k" by (auto simp: image_iff)
    with Cons.IH Cons.prems in_ps show ?thesis by (cases p) simp
  qed
qed

text \<open>Merging two frames computed on the same bins pairs them bin by bin.\<close>

lemma merge_same_bins:
  assumes "distinct (map fst bins)"
  shows "concat (map (\<lambda>(k, a). map (\<lambda>(k1, v). (k, a, v))
                         (filter (\<lambda>(k1, v). k1 = k) (map (\<lambda>(k, rs). (k, g rs)) bins)))
                (map (\<lambda>(k, rs). (k, f rs)) bins))
         = map (\<lambda>(k, rs). (k, f rs, g rs)) bins"
proof -
  let ?vol = "map (\<lambda>(k, rs). (k, g rs)) bins"
  have d: "distinct (map fst ?vol)"
    using assms by (simp add: o_def case_prod_unfold)
  have one: "filter (\<lambda>(k1, v). k1 = k) ?vol = [(k, g rs)]" if "(k, rs) \<in> set bins" for k rs
  proof -
    from that have "(k, g rs) \<in> set ?vol" by force
    with d show ?thesis by (rule filter_key_distinct)
  qed
  have "map (\<lambda>(k, a). map (\<lambda>(k1, v). (k, a, v)) (filter (\<lambda>(k1, v). k1 = k) ?vol))
            (map (\<lambda>(k, rs). (k, f rs)) bins)
        = map (\<lambda>(k, rs). [(k, f rs, g rs)]) bins"
    by (auto simp: one)
  then have "concat (map (\<lambda>(k, a). map (\<lambda>(k1, v). (k, a, v)) (filter (\<lambda>(k1, v). k1 = k) ?vol))
            (map (\<lambda>(k, rs). (k, f rs)) bins))
        = concat (map (\<lambda>(k, rs). [(k, f rs, g rs)]) bins)"
    by (rule arg_cong)
  also have "\<dots> = map (\<lambda>(k, rs). (k, f rs, g rs)) bins"
    by (simp add: case_prod_unfold)
  finally show ?thesis .
qed

lemma distinct_bins:
  assumes "0 < w"
  shows "distinct (map fst (resample_bins w df))"
proof -
  have "inj_on (\<lambda>i. c + int i * w) A" for c A
    using assms by (auto simp: inj_on_def)
  then show ?thesis
    by (simp add: resample_bins_def Let_def o_def distinct_map)
qed

lemma concat_zip_index:
  "concat (map (\<lambda>(i, x). h x) (zip [0..<length xs] xs)) = concat (map h xs)"
proof -
  have snd_zip: "map snd (zip [0..<length xs] xs) = xs"
    by (simp add: map_snd_zip)
  have "map (\<lambda>(i, x). h x) (zip [0..<length xs] xs) = map (h \<circ> snd) (zip [0..<length xs] xs)"
    by (simp add: case_prod_unfold o_def)
  also have "\<dots> = map h (map snd (zip [0..<length xs] xs))"
    by (simp only: map_map)
  also have "\<dots> = map h xs"
    by (simp only: snd_zip)
  finally show ?thesis by simp
qed

text \<open>
  The route of \<open>services/analytics.py\<close> for fewer than 10 ticks gives the frame of the
  general route, apart from the extra column index and the name, size, of the volume.
\<close>

lemma small_route_is_general:
  assumes "0 < w"
  shows "map (\<lambda>b. b\<lparr>b_index := None, b_volume := b_size b, b_size := None\<rparr>) (resample_small w df)
         = resample_general w df"
proof -
  let ?U = "\<lambda>b. b\<lparr>b_index := None, b_volume := b_size b, b_size := None\<rparr>"
  let ?bins = "resample_bins w df"
  let ?f = "\<lambda>rs. (agg_first (map r_price rs), agg_max (map r_price rs),
                    agg_min (map r_price rs), agg_last (map r_price rs))"
  let ?g = "\<lambda>rs. agg_sum (map r_size rs)"
  let ?merged = "map (\<lambda>(k, rs). (k, ?f rs, ?g rs)) ?bins"
  let ?F = "\<lambda>(i, k, a, v).
           case a of
             (Some opn, Some hi, Some lo, Some cl) \<Rightarrow>
               [\<lparr>b_index = Some (int i), b_timestamp = k, b_open = Some opn, b_high = Some hi,
                 b_low = Some lo, b_close = cl, b_volume = None, b_size = Some v\<rparr>]
           | _ \<Rightarrow> []"
  let ?h = "\<lambda>(k :: instant, a, v).
           case a of
             (Some opn, Some hi, Some lo, Some cl) \<Rightarrow>
               [\<lparr>b_index = None, b_timestamp = k, b_open = Some opn, b_high = Some hi,
                 b_low = Some lo, b_close = cl, b_volume = Some v, b_size = None\<rparr>]
           | _ \<Rightarrow> []"
  have merged: "concat (map (\<lambda>(k, a). map (\<lambda>(k1, v). (k, a, v))
                         (filter (\<lambda>(k1, v). k1 = k) (map (\<lambda>(k, rs). (k, ?g rs)) ?bins)))
                (map (\<lambda>(k, rs). (k, ?f rs)) ?bins)) = ?merged"
    using distinct_bins [OF assms] by (rule merge_same_bins)
  have small: "resample_small w df = concat (map ?F (zip [0..<length ?merged] ?merged))"
    unfolding resample_small_def Let_def merged ..
  have UF: "map ?U (?F z) = (\<lambda>(i, x). ?h x) z"
    for z :: "nat \<times> instant \<times> (real option \<times> real option \<times> real option \<times> real option) \<times> real"
    by (auto split: prod.splits option.splits)
  have "map ?U (resample_small w df)
      = concat (map (\<lambda>z. map ?U (?F z)) (zip [0..<length ?merged] ?merged))"
    by (simp add: small map_concat o_def)
  also have "\<dots> = concat (map (\<lambda>(i, x). ?h x) (zip [0..<length ?merged] ?merged))"
    by (simp only: UF)
  also have "\<dots> = concat (map ?h ?merged)"
    by (rule concat_zip_index)
  also have "\<dots> = resample_general w df"
    unfolding resample_general_def
    by (rule arg_cong [where f = concat])
       (auto simp: agg_ohlc_eq split: option.splits prod.splits)
  finally show ?thesis .
qed

text \<open>The route of \<open>app.py\<close> for fewer than 10 ticks is the general route without open, high, low.\<close>

lemma general_without_ohl_is_small_app:
  "map (\<lambda>b. b\<lparr>b_open := None, b_high := None, b_low := None\<rparr>) (resample_general w df)
   = resample_small_app w df"
  unfolding resample_general_def resample_small_app_def map_concat
  by (rule arg_cong [where f = concat])
     (auto simp: agg_ohlc_def agg_last_def ohlc_scan_eq split: list.splits)

text \<open>The general route: one bar per non-empty bin, first, max, min, last and sum.\<close>

lemma general_bars:
  "resample_general w df =
     map (\<lambda>(k, rs).
            \<lparr>b_index = None, b_timestamp = k,
             b_open = Some (hd (map r_price rs)),
             b_high = Some (Max (set (map r_price rs))),
             b_low = Some (Min (set (map r_price rs))),
             b_close = last (map r_price rs),
             b_volume = Some (sum_list (map r_size rs)), b_size = None\<rparr>)
       (filter (\<lambda>(k, rs). rs \<noteq> []) (resample_bins w df))"
proof -
  have "concat (map (\<lambda>(k, rs).
        case agg_ohlc (map r_price rs) of
          None \<Rightarrow> []
        | Some (opn, hi, lo, cl) \<Rightarrow>
            [\<lparr>b_index = None, b_timestamp = k, b_open = Some opn, b_high = Some hi,
              b_low = Some lo, b_close = cl,
              b_volume = Some (agg_sum (map r_size rs)), b_size = None\<rparr>]) bins)
      = map (\<lambda>(k, rs).
            \<lparr>b_index = None, b_timestamp = k,
             b_open = Some (hd (map r_price rs)),
             b_high = Some (Max (set (map r_price rs))),
             b_low = Some (Min (set (map r_price rs))),
             b_close = last (map r_price rs),
             b_volume = Some (sum_list (map r_size rs)), b_size = None\<rparr>)
       (filter (\<lambda>(k, rs). rs \<noteq> []) bins)" for bins :: "(instant \<times> row list) list"
  proof (induction bins)
    case Nil
    show ?case by simp
  next
    case (Cons p bins)
    obtain k rs where p: "p = (k, rs)" by (cases p)
    show ?case
    proof (cases "rs = []")
      case True
      with Cons.IH show ?thesis by (simp add: p agg_ohlc_def)
    next
      case False
      then have "agg_ohlc (map r_price rs) =
          Some (hd (map r_price rs), Max (set (map r_price rs)), Min (set (map r_price rs)),
                last (map r_price rs))"
        by (intro agg_ohlc_nonempty) simp
      with Cons.IH False show ?thesis by (simp add: p agg_sum_def)
    qed
  qed
  then show ?thesis
    unfolding resample_general_def .
qed

lemma five_rows_bins:
  "resample_bins 60000000 five_rows = [(0, five_rows)]"
  by (simp add: resample_bins_def five_rows_def day_def)

text \<open>
  C7, as the code has it.  For a positive bin width and any ticks: (1) in
  \<open>services/analytics.py\<close> the route for fewer than 10 ticks and the general route give
  the same bars with the same timestamp, open, high, low and close, and the same sum of
  sizes, which the first keeps in a column named size (beside a column index) and the
  second in the column volume; (2) in \<open>app.py\<close> the route for fewer than 10 ticks gives
  the bars of the general route with the same timestamp, close and volume and without
  open, high and low; (3) the general route gives, for each non-empty bin, the first
  price, the highest, the lowest, the last, and the sum of the sizes.
\<close>

theorem resample_routes:
  "0 < w \<Longrightarrow>
   map (\<lambda>b. b\<lparr>b_index := None, b_volume := b_size b, b_size := None\<rparr>) (resample_small w df)
     = resample_general w df
   \<and> map (\<lambda>b. b\<lparr>b_open := None, b_high := None, b_low := None\<rparr>) (resample_general w df)
     = resample_small_app w df
   \<and> resample_general w df =
       map (\<lambda>(k, rs).
              \<lparr>b_index = None, b_timestamp = k,
               b_open = Some (hd (map r_price rs)),
               b_high = Some (Max (set (map r_price rs))),
               b_low = Some (Min (set (map r_price rs))),
               b_close = last (map r_price rs),
               b_volume = Some (sum_list (map r_size rs)), b_size = None\<rparr>)
         (filter (\<lambda>(k, rs). rs \<noteq> []) (resample_bins w df))"
  using small_route_is_general [of w df] general_without_ohl_is_small_app [of w df]
    general_bars [of w df]
  by simp

theorem resample_routes_witness:
  "(0::int) < 60000000
   \<and> map (\<lambda>b. b\<lparr>b_index := None, b_volume := b_size b, b_size := None\<rparr>)
         (resample_small 60000000 five_rows)
       = resample_general 60000000 five_rows
   \<and> resample_general 60000000 five_rows =
       [\<lparr>b_index = None, b_timestamp = 0, b_open = Some 100, b_high = Some 104,
         b_low = Some 100, b_close = 104, b_volume = Some 5, b_size = None\<rparr>]
   \<and> resample_small_app 60000000 five_rows =
       [\<lparr>b_index = None, b_timestamp = 0, b_open = None, b_high = None,
         b_low = None, b_close = 104, b_volume = Some 5, b_size = None\<rparr>]"
proof -
  have w: "(0::int) < 60000000" by simp
  note r = resample_routes [OF w, of five_rows]
  have g: "resample_general 60000000 five_rows =
       [\<lparr>b_index = None, b_timestamp = 0, b_open = Some 100, b_high = Some 104,
         b_low = Some 100, b_close = 104, b_volume = Some 5, b_size = None\<rparr>]"
    by (subst r [THEN conjunct2, THEN conjunct2]) (simp add: five_rows_bins, simp add: five_rows_def)
  have a: "resample_small_app 60000000 five_rows =
      map (\<lambda>b. b\<lparr>b_open := None, b_high := None, b_low := None\<rparr>) (resample_general 60000000 five_rows)"
    by (rule r [THEN conjunct2, THEN conjunct1, symmetric])
  have s: "map (\<lambda>b. b\<lparr>b_index := None, b_volume := b_size b, b_size := None\<rparr>)
         (resample_small 60000000 five_rows) = resample_general 60000000 five_rows"
    by (rule r [THEN conjunct1])
  show ?thesis
    unfolding a s by (simp add: g)
qed

text \<open>
  C7 as the specification words it fails in \<open>app.py\<close>: on five ticks of one minute the
  route taken (fewer than 10 ticks) gives a bar without open, high and low, where the
  general route gives 100, 104 and 100.
\<close>

theorem resample_routes_counterexample:
  "resample_ticks_app demo_lib five_rows ''1min'' = resample_small_app 60000000 five_rows
   \<and> map b_open (resample_small_app 60000000 five_rows) = [None]
   \<and> map b_open (resample_general 60000000 five_rows) = [Some 100]
   \<and> map b_high (resample_small_app 60000000 five_rows) = [None]
   \<and> map b_high (resample_general 60000000 five_rows) = [Some 104]"
  by (simp add: resample_ticks_app_def resample_rule_app_def demo_to_datetime restamp_same
      demo_lib_def resample_small_app_def resample_general_def five_rows_bins agg_last_def
      agg_ohlc_def agg_sum_def)
     (simp add: five_rows_def)

section \<open>Properties of the z-score\<close>



text \<open>
  C4, as the code has it.  For fewer than 5 points and every window, \<open>app.py\<close> returns
  mean 0, std 1 and as current z-score the value of \<open>random.uniform(-1, 1)\<close>, which lies
  in [-1, 1) and depends on the draw; \<open>services/analytics.py\<close> returns, without any
  randomness, z-score 0, an empty series, mean 0 and std 0.
\<close>

theorem zscore_insufficient_data:
  "length spread_series < 5 \<Longrightarrow>
   calculate_spread_zscore_app fl u spread_series window =
     \<lparr>current_zscore = uniform (- 1) 1 u, zscore_series = None, mean = 0, std = 1\<rparr>
   \<and> (0 \<le> u \<and> u < 1 \<longrightarrow>
        - 1 \<le> current_zscore (calculate_spread_zscore_app fl u spread_series window)
        \<and> current_zscore (calculate_spread_zscore_app fl u spread_series window) < 1)
   \<and> calculate_spread_zscore spread_series window =
     \<lparr>current_zscore = 0, zscore_series = Some [], mean = 0, std = 0\<rparr>"
  by (simp add: calculate_spread_zscore_app_def calculate_spread_zscore_def neutral_zscore_def
      uniform_def)

theorem zscore_insufficient_data_witness:
  "length [1, 2, 3 :: real] < 5 \<and> (0::real) \<le> 3 / 4 \<and> (3 / 4 :: real) < 1
   \<and> calculate_spread_zscore_app exact_float (3 / 4) [1, 2, 3] 20 =
       \<lparr>current_zscore = 1 / 2, zscore_series = None, mean = 0, std = 1\<rparr>
   \<and> calculate_spread_zscore [1, 2, 3] 20 =
       \<lparr>current_zscore = 0, zscore_series = Some [], mean = 0, std = 0\<rparr>"
proof -
  have h: "length [1, 2, 3 :: real] < 5" by simp
  from zscore_insufficient_data [OF h, of exact_float "3 / 4" 20] show ?thesis
    by (simp add: uniform_def)
qed

text \<open>
  C4 as the specification words it fails: on the series 1, 2, 3 \<open>app.py\<close> returns the
  z-score 1/2 for the draw 3/4 and -1/2 for the draw 1/4, and \<open>services/analytics.py\<close>
  returns std 0, not 1.
\<close>

theorem zscore_neutral_counterexample:
  "current_zscore (calculate_spread_zscore_app exact_float (3 / 4) [1, 2, 3] 20) = 1 / 2
   \<and> current_zscore (calculate_spread_zscore_app exact_float (1 / 4) [1, 2, 3] 20) = - (1 / 2)
   \<and> calculate_spread_zscore_app exact_float (3 / 4) [1, 2, 3] 20
       \<noteq> \<lparr>current_zscore = 0, zscore_series = None, mean = 0, std = 1\<rparr>
   \<and> calculate_spread_zscore_app exact_float (1 / 4) [1, 2, 3] 20
       \<noteq> calculate_spread_zscore_app exact_float (3 / 4) [1, 2, 3] 20
   \<and> std (calculate_spread_zscore [1, 2, 3] 20) = 0"
  by (simp add: calculate_spread_zscore_app_def calculate_spread_zscore_def neutral_zscore_def
      uniform_def)







section \<open>Properties of the pairwise regression\<close>

lemma merge_close_Nil [simp]: "merge_close [] df_b = []" "merge_close df_a [] = []"
  by (simp_all add: merge_close_def)










section \<open>Properties of the analytics of \<open>services/analytics.py\<close>\<close>

lemma pairwise_svc_raises:
  "pairwise_regression_try lib stat get_recent_ticks symb_a symb_b timeframe = Inl e \<Longrightarrow>
   pairwise_regression lib stat get_recent_ticks symb_a symb_b timeframe = None"
  by (simp add: pairwise_regression_def)

lemma pairwise_svc_few_ticks:
  assumes "get_recent_ticks symb_a 500 = Some df_a"
    and "get_recent_ticks symb_b 500 = Some df_b"
    and "length df_a < 10 \<or> length df_b < 10"
  shows "pairwise_regression lib stat get_recent_ticks symb_a symb_b timeframe = None"
  using assms(3)
  by (auto simp: pairwise_regression_def pairwise_regression_try_def assms(1,2))

lemma pairwise_svc_few_joined:
  assumes "get_recent_ticks symb_a 500 = Some df_a"
    and "get_recent_ticks symb_b 500 = Some df_b"
    and "length (merge_close (resample_ticks lib df_a timeframe)
                             (resample_ticks lib df_b timeframe)) < 5"
  shows "pairwise_regression lib stat get_recent_ticks symb_a symb_b timeframe = None"
  using assms(3)
  by (auto simp: pairwise_regression_def pairwise_regression_try_def assms(1,2) Let_def)

lemma pairwise_svc_populated:
  assumes "pairwise_regression lib stat get_recent_ticks symb_a symb_b timeframe = Some r"
  shows "intercept r \<noteq> None \<and> p_value r \<noteq> None"
  using assms
  by (auto simp: pairwise_regression_def pairwise_regression_try_def Let_def
      split: sum.splits option.splits if_splits list.splits)

lemma rolling_correlation_raises:
  "rolling_correlation_try lib stat get_recent_ticks symb_a symb_b window timeframe = Inl e \<Longrightarrow>
   rolling_correlation lib stat get_recent_ticks symb_a symb_b window timeframe
     = Some zero_correlation"
  by (simp add: rolling_correlation_def)

lemma rolling_correlation_no_ticks:
  assumes "get_recent_ticks symb_a 500 = Some df_a"
    and "get_recent_ticks symb_b 500 = Some df_b"
    and "df_a = [] \<or> df_b = []"
  shows "rolling_correlation lib stat get_recent_ticks symb_a symb_b window timeframe = None"
  using assms(3)
  by (auto simp: rolling_correlation_def rolling_correlation_try_def assms(1,2))

lemma zscore_svc_series: "zscore_series (calculate_spread_zscore s w) \<noteq> None"
  by (simp add: calculate_spread_zscore_def neutral_zscore_def Let_def)

lemma adf_test_cases:
  "adf_test stat series = adf_fallback \<or>
   (\<exists>statistic p crit. adfuller stat (dropna series) = Some (statistic, p, crit) \<and>
      adf_test stat series =
        \<lparr>test_statistic = statistic, adf_p_value = p, critical_values = crit,
         is_stationary = (p \<le> 0.05)\<rparr>)"
  by (auto simp: adf_test_def Let_def split: option.splits)

lemma adf_test_short: "length series < 10 \<Longrightarrow> adf_test stat series = adf_fallback"
  by (simp add: adf_test_def)

lemma ten_bins:
  "resample_bins 60000000 ten_rows =
     [(0, [\<lparr>r_timestamp = 0, r_price = 100, r_size = 1\<rparr>,
           \<lparr>r_timestamp = 30000000, r_price = 101, r_size = 1\<rparr>]),
      (60000000, [\<lparr>r_timestamp = 60000000, r_price = 102, r_size = 1\<rparr>,
                  \<lparr>r_timestamp = 90000000, r_price = 103, r_size = 1\<rparr>]),
      (120000000, [\<lparr>r_timestamp = 120000000, r_price = 104, r_size = 1\<rparr>,
                   \<lparr>r_timestamp = 150000000, r_price = 105, r_size = 1\<rparr>]),
      (180000000, [\<lparr>r_timestamp = 180000000, r_price = 106, r_size = 1\<rparr>,
                   \<lparr>r_timestamp = 210000000, r_price = 107, r_size = 1\<rparr>]),
      (240000000, [\<lparr>r_timestamp = 240000000, r_price = 108, r_size = 1\<rparr>,
                   \<lparr>r_timestamp = 270000000, r_price = 109, r_size = 1\<rparr>])]"
  by (simp add: resample_bins_def ten_rows_def day_def upt_rec)

lemma ten_resampled:
  "resample_ticks demo_lib ten_rows ''1m'' =
     [\<lparr>b_index = None, b_timestamp = 0, b_open = Some 100, b_high = Some 101,
       b_low = Some 100, b_close = 101, b_volume = Some 2, b_size = None\<rparr>,
      \<lparr>b_index = None, b_timestamp = 60000000, b_open = Some 102, b_high = Some 103,
       b_low = Some 102, b_close = 103, b_volume = Some 2, b_size = None\<rparr>,
      \<lparr>b_index = None, b_timestamp = 120000000, b_open = Some 104, b_high = Some 105,
       b_low = Some 104, b_close = 105, b_volume = Some 2, b_size = None\<rparr>,
      \<lparr>b_index = None, b_timestamp = 180000000, b_open = Some 106, b_high = Some 107,
       b_low = Some 106, b_close = 107, b_volume = Some 2, b_size = None\<rparr>,
      \<lparr>b_index = None, b_timestamp = 240000000, b_open = Some 108, b_high = Some 109,
       b_low = Some 108, b_close = 109, b_volume = Some 2, b_size = None\<rparr>]"
proof -
  have len: "length ten_rows = 10" and ne: "ten_rows \<noteq> []"
    by (simp_all add: ten_rows_def)
  have rule: "resample_rule demo_lib ''1m'' = Inr 60000000"
    by (simp add: resample_rule_def demo_lib_def)
  have "resample_ticks demo_lib ten_rows ''1m'' = resample_general 60000000 ten_rows"
    by (simp add: resample_ticks_def len ne rule demo_to_datetime restamp_same)
  then show ?thesis
    by (simp add: resample_general_def ten_bins agg_ohlc_def agg_sum_def)
qed

lemma ten_merged:
  "merge_close (resample_ticks demo_lib ten_rows ''1m'') (resample_ticks demo_lib ten_rows ''1m'')
     = [(101, 101), (103, 103), (105, 105), (107, 107), (109, 109)]"
  unfolding ten_resampled by (simp add: merge_close_def)

lemma ten_regression:
  "pairwise_regression demo_lib demo_stat (store_of [(''a'', ten_rows)]) ''a'' ''a'' ''1m''
     = Some \<lparr>hedge_ratio = 1, intercept = Some 0, r_squared = 1, p_value = Some 0,
             spread_mean = 0, spread_std = 0, current_spread = 0\<rparr>"
proof -
  have st: "store_of [(''a'', ten_rows)] ''a'' 500 = Some ten_rows"
    by (simp add: store_of_def ten_rows_def)
  have len: "length ten_rows = 10" and ne0: "ten_rows \<noteq> []"
    by (simp_all add: ten_rows_def)
  have ne: "resample_ticks demo_lib ten_rows ''1m'' \<noteq> []"
    by (simp add: ten_resampled)
  have fit: "ols_fit demo_stat [101, 103, 105, 107, 109]
               (add_constant demo_stat [101, 103, 105, 107, 109])
             = Some \<lparr>params = [0, 1], rsquared = 1, f_pvalue = Some 0\<rparr>"
    by (simp add: demo_stat_def)
  have col: "column1 (add_constant demo_stat [101, 103, 105, 107, 109])
             = Some [101, 103, 105, 107, 109]"
    by (simp add: demo_stat_def column1_def)
  have "pairwise_regression_try demo_lib demo_stat (store_of [(''a'', ten_rows)]) ''a'' ''a'' ''1m''
     = Inr (Some \<lparr>hedge_ratio = 1, intercept = Some 0, r_squared = 1, p_value = Some 0,
             spread_mean = 0, spread_std = 0, current_spread = 0\<rparr>)"
    by (simp add: pairwise_regression_try_def st len ne0 ne ten_merged Let_def fit col
        np_mean_def np_std_def)
  then show ?thesis by (simp add: pairwise_regression_def)
qed

text \<open>
  C2, as the code has it.  None of the four operations lets an exception out
  (\<open>pairwise_regression\<close> turns it into \<open>None\<close>, \<open>rolling_correlation\<close> into its zero
  dictionary).  \<open>pairwise_regression\<close> returns \<open>None\<close> whenever a symbol has fewer than
  10 ticks or fewer than 5 bars join, and a result it does return has every field, the
  intercept and the p-value included.  \<open>rolling_correlation\<close> returns \<open>None\<close> when a
  symbol has no ticks.  \<open>calculate_spread_zscore\<close> and \<open>adf_test\<close> always return a full
  dictionary: the z-score with its series, the test either its fallback or the values
  of \<open>adfuller\<close>.
\<close>

theorem analytics_results:
  "(\<forall>e. pairwise_regression_try lib stat get_recent_ticks symb_a symb_b timeframe = Inl e \<longrightarrow>
        pairwise_regression lib stat get_recent_ticks symb_a symb_b timeframe = None)
   \<and> (get_recent_ticks symb_a 500 = Some df_a \<and> get_recent_ticks symb_b 500 = Some df_b
        \<and> (length df_a < 10 \<or> length df_b < 10
            \<or> length (merge_close (resample_ticks lib df_a timeframe)
                                   (resample_ticks lib df_b timeframe)) < 5) \<longrightarrow>
        pairwise_regression lib stat get_recent_ticks symb_a symb_b timeframe = None)
   \<and> (\<forall>r. pairwise_regression lib stat get_recent_ticks symb_a symb_b timeframe = Some r \<longrightarrow>
        intercept r \<noteq> None \<and> p_value r \<noteq> None)
   \<and> (\<forall>e. rolling_correlation_try lib stat get_recent_ticks symb_a symb_b window timeframe = Inl e
        \<longrightarrow> rolling_correlation lib stat get_recent_ticks symb_a symb_b window timeframe
              = Some zero_correlation)
   \<and> (get_recent_ticks symb_a 500 = Some df_a \<and> get_recent_ticks symb_b 500 = Some df_b
        \<and> (df_a = [] \<or> df_b = []) \<longrightarrow>
        rolling_correlation lib stat get_recent_ticks symb_a symb_b window timeframe = None)
   \<and> zscore_series (calculate_spread_zscore s w) \<noteq> None
   \<and> (length series < 10 \<longrightarrow> adf_test stat series = adf_fallback)
   \<and> (adf_test stat series = adf_fallback \<or>
       (\<exists>statistic p crit. adfuller stat (dropna series) = Some (statistic, p, crit) \<and>
          adf_test stat series =
            \<lparr>test_statistic = statistic, adf_p_value = p, critical_values = crit,
             is_stationary = (p \<le> 0.05)\<rparr>))"
proof (intro conjI allI impI)
  fix e
  assume "pairwise_regression_try lib stat get_recent_ticks symb_a symb_b timeframe = Inl e"
  then show "pairwise_regression lib stat get_recent_ticks symb_a symb_b timeframe = None"
    by (rule pairwise_svc_raises)
next
  assume a: "get_recent_ticks symb_a 500 = Some df_a \<and> get_recent_ticks symb_b 500 = Some df_b
        \<and> (length df_a < 10 \<or> length df_b < 10
            \<or> length (merge_close (resample_ticks lib df_a timeframe)
                                   (resample_ticks lib df_b timeframe)) < 5)"
  then have g: "get_recent_ticks symb_a 500 = Some df_a" "get_recent_ticks symb_b 500 = Some df_b"
    by simp_all
  from a consider "length df_a < 10 \<or> length df_b < 10"
    | "length (merge_close (resample_ticks lib df_a timeframe)
                           (resample_ticks lib df_b timeframe)) < 5"
    by blast
  then show "pairwise_regression lib stat get_recent_ticks symb_a symb_b timeframe = None"
  proof cases
    case 1
    with g show ?thesis by (rule pairwise_svc_few_ticks)
  next
    case 2
    with g show ?thesis by (rule pairwise_svc_few_joined)
  qed
next
  fix r
  assume r: "pairwise_regression lib stat get_recent_ticks symb_a symb_b timeframe = Some r"
  from pairwise_svc_populated [OF r] show "intercept r \<noteq> None" by simp
  from pairwise_svc_populated [OF r] show "p_value r \<noteq> None" by simp
next
  fix e
  assume "rolling_correlation_try lib stat get_recent_ticks symb_a symb_b window timeframe = Inl e"
  then show "rolling_correlation lib stat get_recent_ticks symb_a symb_b window timeframe
      = Some zero_correlation"
    by (rule rolling_correlation_raises)
next
  assume a: "get_recent_ticks symb_a 500 = Some df_a \<and> get_recent_ticks symb_b 500 = Some df_b
        \<and> (df_a = [] \<or> df_b = [])"
  then have "get_recent_ticks symb_a 500 = Some df_a" "get_recent_ticks symb_b 500 = Some df_b"
    "df_a = [] \<or> df_b = []" by simp_all
  then show "rolling_correlation lib stat get_recent_ticks symb_a symb_b window timeframe = None"
    by (rule rolling_correlation_no_ticks)
next
  show "zscore_series (calculate_spread_zscore s w) \<noteq> None"
    by (rule zscore_svc_series)
next
  assume "length series < 10"
  then show "adf_test stat series = adf_fallback" by (rule adf_test_short)
next
  show "adf_test stat series = adf_fallback \<or>
       (\<exists>statistic p crit. adfuller stat (dropna series) = Some (statistic, p, crit) \<and>
          adf_test stat series =
            \<lparr>test_statistic = statistic, adf_p_value = p, critical_values = crit,
             is_stationary = (p \<le> 0.05)\<rparr>)"
    by (rule adf_test_cases)
qed

text \<open>
  An empty store gives no regression and no correlation; ten ticks over five minutes,
  regressed on themselves, give a result with every field.
\<close>

theorem analytics_results_witness:
  "store_of [] ''a'' 500 = Some [] \<and> store_of [] ''b'' 500 = Some []
   \<and> pairwise_regression demo_lib demo_stat (store_of []) ''a'' ''b'' ''1m'' = None
   \<and> rolling_correlation demo_lib demo_stat (store_of []) ''a'' ''b'' 20 ''1m'' = None
   \<and> adf_test demo_stat [Some 1, Some 2, None] = adf_fallback
   \<and> pairwise_regression demo_lib demo_stat (store_of [(''a'', ten_rows)]) ''a'' ''a'' ''1m''
       = Some \<lparr>hedge_ratio = 1, intercept = Some 0, r_squared = 1, p_value = Some 0,
               spread_mean = 0, spread_std = 0, current_spread = 0\<rparr>
   \<and> intercept (the (pairwise_regression demo_lib demo_stat (store_of [(''a'', ten_rows)])
                        ''a'' ''a'' ''1m'')) \<noteq> None"
proof -
  have e: "store_of [] ''a'' 500 = Some []" "store_of [] ''b'' 500 = Some []"
    by (simp_all add: store_of_def)
  have h: "store_of [] ''a'' 500 = Some [] \<and> store_of [] ''b'' 500 = Some []
        \<and> (length ([] :: row list) < 10 \<or> length ([] :: row list) < 10
            \<or> length (merge_close (resample_ticks demo_lib [] ''1m'')
                                   (resample_ticks demo_lib [] ''1m'')) < 5)"
    using e by simp
  have h2: "store_of [] ''a'' 500 = Some [] \<and> store_of [] ''b'' 500 = Some []
        \<and> (([] :: row list) = [] \<or> ([] :: row list) = [])"
    using e by simp
  have l: "length [Some 1, Some 2, None :: real option] < 10" by simp
  note t = analytics_results [of demo_lib demo_stat "store_of []" "''a''" "''b''" "''1m''"
      "[]" "[]" 20 "[]" 20 "[Some 1, Some 2, None]"]
  note u = analytics_results [of demo_lib demo_stat "store_of [(''a'', ten_rows)]" "''a''" "''a''"
      "''1m''" "[]" "[]" 20 "[]" 20 "[]"]
  have 1: "pairwise_regression demo_lib demo_stat (store_of []) ''a'' ''b'' ''1m'' = None"
    using t [THEN conjunct2, THEN conjunct1] h by (rule mp)
  have 2: "rolling_correlation demo_lib demo_stat (store_of []) ''a'' ''b'' 20 ''1m'' = None"
    using t [THEN conjunct2, THEN conjunct2, THEN conjunct2, THEN conjunct2, THEN conjunct1] h2
    by (rule mp)
  have 3: "adf_test demo_stat [Some 1, Some 2, None] = adf_fallback"
    using t [THEN conjunct2, THEN conjunct2, THEN conjunct2, THEN conjunct2, THEN conjunct2,
        THEN conjunct2, THEN conjunct1] l
    by (rule mp)
  have "intercept r \<noteq> None"
    if "pairwise_regression demo_lib demo_stat (store_of [(''a'', ten_rows)]) ''a'' ''a'' ''1m'' = Some r"
    for r
    using u [THEN conjunct2, THEN conjunct2, THEN conjunct1, THEN spec, of r] that by simp
  then have 4: "intercept (the (pairwise_regression demo_lib demo_stat (store_of [(''a'', ten_rows)])
                        ''a'' ''a'' ''1m'')) \<noteq> None"
    using ten_regression by simp
  from e 1 2 3 4 ten_regression show ?thesis by simp
qed

text \<open>
  C2 as the specification words it fails: with no ticks stored, \<open>pairwise_regression\<close>
  and \<open>rolling_correlation\<close> return \<open>None\<close>, not a result object.
\<close>

theorem analytics_none_counterexample:
  "pairwise_regression demo_lib demo_stat (store_of []) ''btcusdt'' ''ethusdt'' ''1m'' = None
   \<and> rolling_correlation demo_lib demo_stat (store_of []) ''btcusdt'' ''ethusdt'' 20 ''1m'' = None"
  by (simp add: pairwise_regression_def pairwise_regression_try_def rolling_correlation_def
      rolling_correlation_try_def store_of_def)

end
